theory Spec2Isabelle
  imports Main "HOL-Library.AList" "HOL-Library.Char_ord" "HOL-Library.List_Lexorder"
begin

section \<open>Syntax trees (package ast)\<close>

text \<open>
  The node kinds the transformer and the checker's generic subsystem inspect. Source
  positions (\<open>Lbrack\<close>, \<open>Rbrack\<close>, \<open>Pos\<close>) and comments are left out. An identifier that
  sits in a field of Go type \<open>*ast.Ident\<close> (a selector's \<open>Sel\<close>, a field's \<open>Names\<close>, a
  declared name) is a \<open>string\<close>; an identifier in expression position is \<open>Ident\<close>.
\<close>

datatype Expr =
    Ident string
  | BasicLit string
  | SelectorExpr Expr string
  | StarExpr Expr
  | ParenExpr Expr
  | IndexExpr Expr Expr
  | TypeArgExpr Expr "Expr list"
  | CallExpr Expr "Expr list"
  | CompositeLit "Expr option" "Expr list"
  | KeyValueExpr Expr Expr
  | ArrayType "Expr option" Expr
  | MapType Expr Expr
  | StructType "Field list"
  | FuncType "Field list" "Field list"
and Field = Field "string list" Expr

text \<open>
  Specs, declarations, statements and files. A \<open>TypeParamDecl\<close> is its \<open>Names\<close>. The
  \<open>Decl\<close> of a \<open>DeclStmt\<close> is always a \<open>*GenDecl\<close>. A \<open>FuncDecl\<close> has its receiver
  list, name, type parameters, the parameters and results of its \<open>Type\<close>, and its body.
  Statement kinds without a declaration or a nested statement list of their own are
  represented by \<open>ExprStmt\<close>, \<open>AssignStmt\<close> and \<open>ReturnStmt\<close>.
\<close>

datatype TypeParamDecl = TypeParamDecl "string list"

datatype Spec =
    ImportSpec string
  | ValueSpec "string list" "Expr option" "Expr list"
  | TypeSpec string "TypeParamDecl option" Expr

datatype GenDecl = GenDecl string "Spec list"

datatype Stmt =
    ExprStmt Expr
  | AssignStmt "Expr list" "Expr list"
  | ReturnStmt "Expr list"
  | DeclStmt GenDecl
  | BlockStmt "Stmt list"

datatype FuncDecl =
  FuncDecl (fdRecv: "Field list option") (fdName: string) (fdTypeParams: "TypeParamDecl option")
    (fdParams: "Field list") (fdResults: "Field list") (fdBody: "Stmt list option")

datatype Decl = DeclGen GenDecl | DeclFunc FuncDecl

datatype File = File string "Decl list"

section \<open>Types (types/type.go)\<close>

text \<open>
  \<open>Object\<close> stands for the declared objects (\<open>*TypeName\<close>, \<open>*Func\<close>) a type points back
  to: the owning package's path and the name. The object's \<open>typ\<close> field points to the type
  again; that back pointer is not part of the value, so copying an object (\<open>newObj := *root.obj\<close>)
  and redirecting its \<open>typ\<close> gives the same \<open>Object\<close>.
\<close>

datatype Object = Object (opkg: string) (oname: string)

datatype ChanDir = SendRecv | SendOnly | RecvOnly

text \<open>
  A value of the Go interface type \<open>Type\<close>: \<open>NilType\<close> is the nil interface value, every
  other constructor a pointer to the struct of that name. \<open>*Var\<close> and \<open>*Func\<close> objects keep
  their name and type. A \<open>*TypeParam\<close> is its name; a slice of type parameters is a
  \<open>string list\<close>. A \<open>map[string]Type\<close> is an association list; a nil map and an empty map
  read alike and are both \<open>[]\<close>. \<open>ConcreteNamed\<close> embeds \<open>*Named\<close>: the four promoted
  fields come first, then its own \<open>typeParams\<close> and \<open>typeMap\<close>. \<open>ConcreteSignature\<close>
  embeds \<open>*Signature\<close>.
\<close>

datatype Type =
    NilType
  | Basic string
  | Array int Type
  | Slice Type
  | TypeParam string
  | StructT Struct
  | Pointer Type
  | TupleT "Var list"
  | SignatureT Signature
  | InterfaceT "Func list" "Type list" "Func list option"
  | Map Type Type
  | Chan ChanDir Type
  | NamedT Named
  | ConcreteNamedT ConcreteNamed
  | ConcreteSignatureT Signature "string list" "(string \<times> Type) list"
and Var = Var (vname: string) (vtyp: Type)
and Func = Func (fname: string) (ftyp: Type)
and Struct = Struct "Var list" "string list"
and Signature =
  Signature (sigRecv: "Var option") (sigParams: "Var list option") (sigResults: "Var list option")
    (sigVariadic: bool) (sigTypeParams: "string list") (sigRecvTypeParams: "string list")
    (sigObj: "Object option")
and Named =
  Named (namedObj: Object) (namedUnderlying: Type) (namedMethods: "Func list")
    (namedTypeParams: "string list")
and ConcreteNamed =
  ConcreteNamed Object Type "Func list" "string list" "string list" "(string \<times> Type) list"

type_synonym TypeMap = "(string \<times> Type) list"

text \<open>Every panic of the modelled code is a value of \<open>error\<close>.\<close>

datatype error =
    DeclarationNotFound Object
      \<comment> \<open>\<open>panic(fmt.Errorf("declaration not found for generic object %s", genObj.Id()))\<close>\<close>
  | NilDereference
      \<comment> \<open>runtime panic: method call or field access through a nil pointer or interface\<close>
  | UnexpectedMethTyp
      \<comment> \<open>\<open>panic(fmt.Errorf("unexpected meth.typ: %T", meth.typ))\<close>\<close>
  | MultipleFields
      \<comment> \<open>\<open>panic("multiple fields with the same name")\<close>\<close>
  | MoreTagsThanFields
      \<comment> \<open>\<open>panic("more tags than fields")\<close>\<close>
  | VariadicNoParameter
      \<comment> \<open>\<open>panic("types.NewSignature: variadic function must have at least one parameter")\<close>\<close>
  | VariadicNotSlice
      \<comment> \<open>\<open>panic("types.NewSignature: variadic parameter must be of unnamed slice type")\<close>\<close>
  | MultipleTypeParams
      \<comment> \<open>\<open>panic("types.NewSignature: cannot have multiple type parameters with the same name")\<close>\<close>
  | GenericNotFound string
      \<comment> \<open>\<open>panic(fmt.Errorf("could not find generic type declaration for %s", key))\<close>\<close>
  | InvalidReceiver
      \<comment> \<open>\<open>panic(fmt.Errorf("invalid receiver type expression: %T %s", recv, recv))\<close>\<close>
  | UnsupportedTypeArgs
      \<comment> \<open>\<open>panic(fmt.Errorf("type arguments for expr %v of type %T are not yet supported", ...))\<close>\<close>
  | CursorPanic
      \<comment> \<open>a \<open>Cursor\<close> method used where the node's position does not allow it\<close>

fun isTypeParam :: "Type \<Rightarrow> bool" where
  "isTypeParam (TypeParam p) = True"
| "isTypeParam t = False"

fun isSlice :: "Type \<Rightarrow> bool" where
  "isSlice (Slice e) = True"
| "isSlice t = False"

text \<open>\<open>typeMap[k]\<close> read as a single value: the zero value (nil) for a missing key.\<close>

definition index :: "TypeMap \<Rightarrow> string \<Rightarrow> Type" where
  "index typeMap k = (case map_of typeMap k of None \<Rightarrow> NilType | Some t \<Rightarrow> t)"

text \<open>\<open>strings.Join\<close>.\<close>

fun join :: "string \<Rightarrow> string list \<Rightarrow> string" where
  "join sep [] = []"
| "join sep [s] = s"
| "join sep (s # t # ss) = s @ sep @ join sep (t # ss)"

text \<open>
  \<open>NewStruct\<close>: the object set is keyed by the field's id; the fields of one struct are
  compared by name here.
\<close>

definition NewStruct :: "Var list \<Rightarrow> string list \<Rightarrow> error + Struct" where
  "NewStruct flds tags =
     (if \<not> distinct (filter (\<lambda>n. n \<noteq> ''_'') (map vname flds)) then Inl MultipleFields
      else if length tags > length flds then Inl MoreTagsThanFields
      else Inr (Struct flds tags))"

text \<open>
  Modelled from the spec: the six-argument \<open>NewSignature\<close> that \<open>replaceTypesInSignature\<close>
  calls is not among the sources. \<open>type.go\<close> has the four-argument \<open>NewSignature\<close> (the two
  checks of a variadic signature, invariant 2 of the spec) and \<open>NewGenericSignature\<close>, which
  takes the same six arguments, calls \<open>NewSignature\<close> and then checks that the type-parameter
  names are pairwise distinct (invariant 3); the definition follows those two. A nil \<open>*Tuple\<close>
  has length 0. The new signature has no scope and no object.
\<close>

definition NewSignature ::
  "Var option \<Rightarrow> Var list option \<Rightarrow> Var list option \<Rightarrow> bool \<Rightarrow> string list \<Rightarrow> string list
     \<Rightarrow> error + Signature" where
  "NewSignature recv params results variadic typeParams recvTypeParams =
     (let vars = (case params of None \<Rightarrow> [] | Some vs \<Rightarrow> vs) in
      if variadic \<and> length vars = 0 then Inl VariadicNoParameter
      else if variadic \<and> \<not> isSlice (vtyp (last vars)) then Inl VariadicNotSlice
      else if length typeParams > 0 \<and> \<not> distinct (typeParams @ recvTypeParams)
        then Inl MultipleTypeParams
      else Inr (Signature recv params results variadic typeParams recvTypeParams None))"

fun setObj :: "Object option \<Rightarrow> Signature \<Rightarrow> Signature" where
  "setObj obj (Signature recv params results variadic typeParams recvTypeParams x) =
     Signature recv params results variadic typeParams recvTypeParams obj"

fun setSigTypeParams :: "string list \<Rightarrow> Signature \<Rightarrow> Signature" where
  "setSigTypeParams tps (Signature recv params results variadic typeParams recvTypeParams obj) =
     Signature recv params results variadic tps recvTypeParams obj"

text \<open>\<open>Underlying\<close> (the last lines of \<open>type.go\<close>, and \<open>TypeParam.Underlying\<close>).\<close>

fun Underlying :: "Type \<Rightarrow> error + Type" where
  "Underlying NilType = Inl NilDereference"
| "Underlying (TypeParam p) = Inr (InterfaceT [] [] None)"
| "Underlying (NamedT (Named obj underlying methods typeParams)) = Inr underlying"
| "Underlying (ConcreteNamedT (ConcreteNamed obj underlying methods ntps typeParams typeMap)) =
     Inr underlying"
| "Underlying (ConcreteSignatureT sig typeParams typeMap) = Inr (SignatureT sig)"
| "Underlying t = Inr t"

section \<open>The generic registry (types/generics.go)\<close>

record GenericUsage =
  usg_typeMap :: TypeMap
  usg_typ :: Type

text \<open>
  \<open>usages\<close> is a \<open>map[string]*GenericUsage\<close>: an association list with one entry for
  each key, written with \<open>AList.update\<close>. A nil map is \<open>[]\<close>.
\<close>

record GenericDecl =
  decl_name :: string
  decl_typ :: Type
  decl_typeParams :: "string list"
  decl_usages :: "(string \<times> GenericUsage) list"

text \<open>
  \<open>pkg.generics\<close> of every package, by package path. A nil \<open>generics\<close> map is the empty
  map: both operations allocate it before they write, and reading a nil map finds nothing.
\<close>

type_synonym Generics = "string \<rightharpoonup> GenericDecl"
type_synonym Packages = "string \<Rightarrow> Generics"

definition noPackages :: Packages where
  "noPackages = (\<lambda>path. Map.empty)"

text \<open>\<open>obj.Type()\<close> is the second argument.\<close>

definition addGenericDecl :: "Object \<Rightarrow> Type \<Rightarrow> string list \<Rightarrow> Packages \<Rightarrow> Packages" where
  "addGenericDecl obj objType typeParams pkgs =
     pkgs (opkg obj := (pkgs (opkg obj)) (oname obj \<mapsto>
       \<lparr>decl_name = oname obj, decl_typ = objType, decl_typeParams = typeParams,
        decl_usages = []\<rparr>))"

text \<open>
  The loop of \<open>usageKey\<close>. \<open>String\<close> is the \<open>String\<close> method of the types
  (\<open>TypeString\<close>, not among the sources): a parameter of everything that reaches
  \<open>usageKey\<close>. Calling it on the nil value a missing key reads is a runtime panic.
\<close>

fun stringParams :: "(Type \<Rightarrow> string) \<Rightarrow> TypeMap \<Rightarrow> string list \<Rightarrow> error + string list" where
  "stringParams String typeMap [] = Inr []"
| "stringParams String typeMap (param # typeParams) =
     (if index typeMap param = NilType then Inl NilDereference
      else (case stringParams String typeMap typeParams of
              Inl e \<Rightarrow> Inl e
            | Inr ss \<Rightarrow> Inr (String (index typeMap param) # ss)))"

definition usageKey :: "(Type \<Rightarrow> string) \<Rightarrow> TypeMap \<Rightarrow> string list \<Rightarrow> error + string" where
  "usageKey String typeMap typeParams =
     (case stringParams String typeMap typeParams of
        Inl e \<Rightarrow> Inl e
      | Inr ss \<Rightarrow> Inr (join '','' ss))"

definition addGenericUsage ::
  "(Type \<Rightarrow> string) \<Rightarrow> Object \<Rightarrow> Type \<Rightarrow> TypeMap \<Rightarrow> Packages \<Rightarrow> error + Packages" where
  "addGenericUsage String genObj typ typeMap pkgs =
     (if list_ex (\<lambda>(k, t). isTypeParam t) typeMap then Inr pkgs
      else (case pkgs (opkg genObj) (oname genObj) of
              None \<Rightarrow> Inl (DeclarationNotFound genObj)
            | Some genDecl \<Rightarrow>
                (case usageKey String typeMap (decl_typeParams genDecl) of
                   Inl e \<Rightarrow> Inl e
                 | Inr key \<Rightarrow>
                     Inr (pkgs (opkg genObj := (pkgs (opkg genObj)) (oname genObj \<mapsto>
                       genDecl \<lparr>decl_usages :=
                         AList.update key \<lparr>usg_typeMap = typeMap, usg_typ = typ\<rparr>
                           (decl_usages genDecl)\<rparr>))))))"

text \<open>
  The states the registry can be in: from any registry, any sequence of \<open>addGenericDecl\<close>
  calls and of \<open>addGenericUsage\<close> calls that return.
\<close>

inductive registrySteps :: "(Type \<Rightarrow> string) \<Rightarrow> Packages \<Rightarrow> Packages \<Rightarrow> bool"
  for String :: "Type \<Rightarrow> string" and pkgs0 :: Packages where
  start: "registrySteps String pkgs0 pkgs0"
| decl: "registrySteps String pkgs0 pkgs \<Longrightarrow>
         registrySteps String pkgs0 (addGenericDecl obj objType typeParams pkgs)"
| usage: "registrySteps String pkgs0 pkgs \<Longrightarrow>
          addGenericUsage String genObj typ typeMap pkgs = Inr pkgs' \<Longrightarrow>
          registrySteps String pkgs0 pkgs'"

section \<open>The substitution engine (types/generics.go)\<close>

definition createMethodTypeMap :: "Type \<Rightarrow> TypeMap \<Rightarrow> TypeMap" where
  "createMethodTypeMap recvType typeMap =
     (case recvType of
        ConcreteNamedT (ConcreteNamed obj u ms ntps typeParams recvTypeMap) \<Rightarrow>
          (if length typeParams = 0 then typeMap
           else fold (\<lambda>(name, typ) newTypeMap.
                        (case typ of
                           TypeParam tp \<Rightarrow> AList.update tp (index typeMap name) newTypeMap
                         | _ \<Rightarrow> newTypeMap))
                     recvTypeMap typeMap)
      | _ \<Rightarrow> typeMap)"

text \<open>The first loop of \<open>replaceTypesInConcreteNamed\<close>, which builds \<open>newTypeMap\<close>.\<close>

definition inheritTypeMap :: "TypeMap \<Rightarrow> TypeMap \<Rightarrow> TypeMap" where
  "inheritTypeMap rootTypeMap typeMap =
     fold (\<lambda>(key, given) newTypeMap.
             (case given of
                TypeParam param \<Rightarrow>
                  (case map_of typeMap param of
                     Some inherited \<Rightarrow>
                       (if \<not> isTypeParam inherited then AList.update key inherited newTypeMap
                        else AList.update key given newTypeMap)
                   | None \<Rightarrow> AList.update key given newTypeMap)
              | _ \<Rightarrow> AList.update key given newTypeMap))
          rootTypeMap []"

text \<open>
  A computation that reads and writes the registry and may panic. \<open>forEach\<close> runs the
  bodies of a \<open>for ... range\<close> loop in order and appends their results.
\<close>

type_synonym 'a M = "Packages \<Rightarrow> error + ('a \<times> Packages)"

fun forEach :: "'a M list \<Rightarrow> 'a list M" where
  "forEach [] pkgs = Inr ([], pkgs)"
| "forEach (m # ms) pkgs =
     (case m pkgs of
        Inl e \<Rightarrow> Inl e
      | Inr (x, pkgs') \<Rightarrow>
          (case forEach ms pkgs' of
             Inl e \<Rightarrow> Inl e
           | Inr (xs, pkgs'') \<Rightarrow> Inr (x # xs, pkgs'')))"

text \<open>
  The three blocks of \<open>replaceTypesInSignature\<close> before \<open>NewSignature\<close>, given the
  substitution of each variable: \<open>copyRecv\<close> is \<open>if root.recv != nil\<close>, \<open>copyTuple\<close> is
  \<open>if root.params != nil && len(root.params.vars) > 0\<close> with its loop.
\<close>

definition copyRecv :: "Var M option \<Rightarrow> Var option M" where
  "copyRecv recv pkgs =
     (case recv of
        None \<Rightarrow> Inr (None, pkgs)
      | Some m \<Rightarrow>
          (case m pkgs of
             Inl e \<Rightarrow> Inl e
           | Inr (newRecv, pkgs') \<Rightarrow> Inr (Some newRecv, pkgs')))"

definition copyTuple :: "Var M list option \<Rightarrow> Var list option M" where
  "copyTuple tuple pkgs =
     (case tuple of
        None \<Rightarrow> Inr (None, pkgs)
      | Some vars \<Rightarrow>
          (if length vars > 0 then
             (case forEach vars pkgs of
                Inl e \<Rightarrow> Inl e
              | Inr (newVars, pkgs') \<Rightarrow> Inr (Some newVars, pkgs'))
           else Inr (None, pkgs)))"

text \<open>
  \<open>replaceTypes\<close> and the functions it calls, by recursion on the type. The type comes
  first, then \<open>String\<close>, the \<open>typeMap\<close> and the registry. \<open>replaceTypesInVar\<close> is the body
  of the loops over fields, parameters and results (\<open>newField := *field;
  newField.typ = replaceTypes(field.Type(), typeMap)\<close>), \<open>replaceTypesInMethod\<close> the body
  of the loop of \<open>replaceTypesInMethods\<close>: there \<open>replaceTypesInSignature(sig, newTypeMap)\<close>
  is reached through \<open>replaceTypes\<close> on \<open>meth.typ\<close>, which is that signature. In
  \<open>replaceTypesInConcreteNamed\<close>, \<open>replaceTypesInNamed(root.Named, newTypeMap)\<close> is its
  body on the promoted \<open>underlying\<close>; the assignments to \<open>newNamed.typeParams\<close>,
  \<open>newType.obj\<close> and \<open>newType.methods\<close> write through the embedded pointer and so give the
  fields of the result.
\<close>

primrec replaceTypes :: "Type \<Rightarrow> (Type \<Rightarrow> string) \<Rightarrow> TypeMap \<Rightarrow> Type M"
  and replaceTypesInVar :: "Var \<Rightarrow> (Type \<Rightarrow> string) \<Rightarrow> TypeMap \<Rightarrow> Var M"
  and replaceTypesInStruct :: "Struct \<Rightarrow> (Type \<Rightarrow> string) \<Rightarrow> TypeMap \<Rightarrow> Struct M"
  and replaceTypesInSignature :: "Signature \<Rightarrow> (Type \<Rightarrow> string) \<Rightarrow> TypeMap \<Rightarrow> Signature M"
  and replaceTypesInMethod :: "Func \<Rightarrow> (Type \<Rightarrow> string) \<Rightarrow> TypeMap \<Rightarrow> Func M"
  and replaceTypesInNamed :: "Named \<Rightarrow> (Type \<Rightarrow> string) \<Rightarrow> TypeMap \<Rightarrow> Named M"
  and replaceTypesInConcreteNamed ::
    "ConcreteNamed \<Rightarrow> (Type \<Rightarrow> string) \<Rightarrow> TypeMap \<Rightarrow> ConcreteNamed M"
where
  "replaceTypes (TypeParam t) = (\<lambda>String typeMap pkgs.
     (case map_of typeMap t of
        Some newType \<Rightarrow>
          (if isTypeParam newType then Inr (TypeParam t, pkgs) else Inr (newType, pkgs))
      | None \<Rightarrow> Inr (TypeParam t, pkgs)))"
| "replaceTypes (Pointer base) = (\<lambda>String typeMap pkgs.
     (case replaceTypes base String typeMap pkgs of
        Inl e \<Rightarrow> Inl e
      | Inr (newBase, pkgs') \<Rightarrow> Inr (Pointer newBase, pkgs')))"
| "replaceTypes (Slice elem) = (\<lambda>String typeMap pkgs.
     (case replaceTypes elem String typeMap pkgs of
        Inl e \<Rightarrow> Inl e
      | Inr (newElem, pkgs') \<Rightarrow> Inr (Slice newElem, pkgs')))"
| "replaceTypes (Map key elem) = (\<lambda>String typeMap pkgs.
     (case replaceTypes key String typeMap pkgs of
        Inl e \<Rightarrow> Inl e
      | Inr (newKey, pkgs') \<Rightarrow>
          (case replaceTypes elem String typeMap pkgs' of
             Inl e \<Rightarrow> Inl e
           | Inr (newElem, pkgs'') \<Rightarrow> Inr (Map newKey newElem, pkgs''))))"
| "replaceTypes (Array len elem) = (\<lambda>String typeMap pkgs.
     (case replaceTypes elem String typeMap pkgs of
        Inl e \<Rightarrow> Inl e
      | Inr (newElem, pkgs') \<Rightarrow> Inr (Array len newElem, pkgs')))"
| "replaceTypes (Chan dir elem) = (\<lambda>String typeMap pkgs.
     (case replaceTypes elem String typeMap pkgs of
        Inl e \<Rightarrow> Inl e
      | Inr (newElem, pkgs') \<Rightarrow> Inr (Chan dir newElem, pkgs')))"
| "replaceTypes (StructT st) = (\<lambda>String typeMap pkgs.
     (case replaceTypesInStruct st String typeMap pkgs of
        Inl e \<Rightarrow> Inl e
      | Inr (newStruct, pkgs') \<Rightarrow> Inr (StructT newStruct, pkgs')))"
| "replaceTypes (SignatureT sig) = (\<lambda>String typeMap pkgs.
     (case replaceTypesInSignature sig String typeMap pkgs of
        Inl e \<Rightarrow> Inl e
      | Inr (newSig, pkgs') \<Rightarrow> Inr (SignatureT newSig, pkgs')))"
| "replaceTypes (NamedT named) = (\<lambda>String typeMap pkgs.
     (case replaceTypesInNamed named String typeMap pkgs of
        Inl e \<Rightarrow> Inl e
      | Inr (newNamed, pkgs') \<Rightarrow> Inr (NamedT newNamed, pkgs')))"
| "replaceTypes (ConcreteNamedT cn) = (\<lambda>String typeMap pkgs.
     (case replaceTypesInConcreteNamed cn String typeMap pkgs of
        Inl e \<Rightarrow> Inl e
      | Inr (newType, pkgs') \<Rightarrow> Inr (ConcreteNamedT newType, pkgs')))"
| "replaceTypes NilType = (\<lambda>String typeMap pkgs. Inr (NilType, pkgs))"
| "replaceTypes (Basic name) = (\<lambda>String typeMap pkgs. Inr (Basic name, pkgs))"
| "replaceTypes (TupleT vars) = (\<lambda>String typeMap pkgs. Inr (TupleT vars, pkgs))"
| "replaceTypes (InterfaceT ms embeddeds allMethods) = (\<lambda>String typeMap pkgs.
     Inr (InterfaceT ms embeddeds allMethods, pkgs))"
| "replaceTypes (ConcreteSignatureT sig typeParams tm) = (\<lambda>String typeMap pkgs.
     Inr (ConcreteSignatureT sig typeParams tm, pkgs))"

| "replaceTypesInVar (Var name typ) = (\<lambda>String typeMap pkgs.
     (case replaceTypes typ String typeMap pkgs of
        Inl e \<Rightarrow> Inl e
      | Inr (newTyp, pkgs') \<Rightarrow> Inr (Var name newTyp, pkgs')))"

| "replaceTypesInStruct (Struct flds tags) = (\<lambda>String typeMap pkgs.
     (case forEach (map (\<lambda>field. replaceTypesInVar field String typeMap) flds) pkgs of
        Inl e \<Rightarrow> Inl e
      | Inr (newFields, pkgs') \<Rightarrow>
          (case NewStruct newFields tags of
             Inl e \<Rightarrow> Inl e
           | Inr newStruct \<Rightarrow> Inr (newStruct, pkgs'))))"

| "replaceTypesInSignature (Signature recv params results variadic typeParams recvTypeParams obj) =
     (\<lambda>String typeMap pkgs.
     (case copyRecv (map_option (\<lambda>v. replaceTypesInVar v String typeMap) recv) pkgs of
        Inl e \<Rightarrow> Inl e
      | Inr (newRecv, pkgs1) \<Rightarrow>
          (case copyTuple (map_option (map (\<lambda>v. replaceTypesInVar v String typeMap)) params)
                  pkgs1 of
             Inl e \<Rightarrow> Inl e
           | Inr (newParams, pkgs2) \<Rightarrow>
               (case copyTuple (map_option (map (\<lambda>v. replaceTypesInVar v String typeMap)) results)
                       pkgs2 of
                  Inl e \<Rightarrow> Inl e
                | Inr (newResults, pkgs3) \<Rightarrow>
                    (case NewSignature newRecv newParams newResults variadic typeParams
                            recvTypeParams of
                       Inl e \<Rightarrow> Inl e
                     | Inr newSig \<Rightarrow> Inr (setObj obj newSig, pkgs3))))))"

| "replaceTypesInMethod (Func name typ) = (\<lambda>String typeMap pkgs.
     (case typ of
        SignatureT sig \<Rightarrow>
          (case sigRecv sig of
             None \<Rightarrow> Inl NilDereference
           | Some recv \<Rightarrow>
               (case replaceTypes typ String (createMethodTypeMap (vtyp recv) typeMap) pkgs of
                  Inl e \<Rightarrow> Inl e
                | Inr (newSig, pkgs') \<Rightarrow> Inr (Func name newSig, pkgs')))
      | _ \<Rightarrow> Inl UnexpectedMethTyp))"

| "replaceTypesInNamed (Named obj underlying methods typeParams) = (\<lambda>String typeMap pkgs.
     (case replaceTypes underlying String typeMap pkgs of
        Inl e \<Rightarrow> Inl e
      | Inr (newUnderlying, pkgs') \<Rightarrow> Inr (Named obj newUnderlying methods typeParams, pkgs')))"

| "replaceTypesInConcreteNamed (ConcreteNamed obj underlying methods ntypeParams typeParams
       rootTypeMap) =
     (\<lambda>String typeMap pkgs.
     (let newTypeMap = inheritTypeMap rootTypeMap typeMap in
      case replaceTypes underlying String newTypeMap pkgs of
        Inl e \<Rightarrow> Inl e
      | Inr (newUnderlying, pkgs1) \<Rightarrow>
          (case forEach (map (\<lambda>meth. replaceTypesInMethod meth String newTypeMap) methods)
                  pkgs1 of
             Inl e \<Rightarrow> Inl e
           | Inr (newMethods, pkgs2) \<Rightarrow>
               (let newType = ConcreteNamed obj newUnderlying newMethods [] typeParams newTypeMap in
                case addGenericUsage String obj (ConcreteNamedT newType) newTypeMap pkgs2 of
                  Inl e \<Rightarrow> Inl e
                | Inr pkgs3 \<Rightarrow> Inr (newType, pkgs3)))))"

definition replaceTypesInMethods :: "Func list \<Rightarrow> (Type \<Rightarrow> string) \<Rightarrow> TypeMap \<Rightarrow> Func list M" where
  "replaceTypesInMethods methods String typeMap =
     forEach (map (\<lambda>meth. replaceTypesInMethod meth String typeMap) methods)"

section \<open>Type-argument applications (types/generics.go)\<close>

text \<open>
  The checker state these functions touch: \<open>check.pos\<close> and the reported errors.
  A diagnostic keeps the position and the numbers its message prints:
  \<open>WrongNumberOfTypeParameters pos expected got\<close> is
  \<open>check.errorf(check.pos, "wrong number of type parameters (expected %d but got %d)", ...)\<close>,
  \<open>UnexpectedGeneric pos\<close> is \<open>check.errorf(check.pos, "unexpected generic for %s: %T", ...)\<close>.
\<close>

datatype Diagnostic =
    WrongNumberOfTypeParameters nat nat nat
  | UnexpectedGeneric nat

record Checker =
  check_pos :: nat
  check_errors :: "Diagnostic list"

definition errorf :: "Diagnostic \<Rightarrow> Checker \<Rightarrow> Checker" where
  "errorf d check = check \<lparr>check_errors := check_errors check @ [d]\<rparr>"

text \<open>
  \<open>rawExpr\<close> is the type \<open>check.rawExpr\<close> leaves in \<open>x.typ\<close> for a type argument
  (\<open>NilType\<close> for nil); the expression checker is not part of the generic subsystem. The
  nil map returned on an arity mismatch is \<open>[]\<close>.
\<close>

definition createTypeMap ::
  "(Expr \<Rightarrow> Type) \<Rightarrow> Expr list \<Rightarrow> string list \<Rightarrow> Checker \<Rightarrow> TypeMap \<times> Checker" where
  "createTypeMap rawExpr params genericParams check =
     (if length params \<noteq> length genericParams then
        ([], errorf (WrongNumberOfTypeParameters (check_pos check) (length genericParams)
                       (length params)) check)
      else
        (fold (\<lambda>(typ, genericParam) typeMap.
                 (if rawExpr typ \<noteq> NilType then AList.update genericParam (rawExpr typ) typeMap
                  else typeMap))
              (zip params genericParams) [],
         check))"

text \<open>
  \<open>concreteType\<close>; \<open>params\<close> is \<open>expr.Params\<close>. \<open>NewConcreteNamed\<close> and
  \<open>NewConcreteSignature\<close> build the value from their three arguments. The result
  \<open>nil\<close> of the last branch is \<open>NilType\<close>.
\<close>

definition concreteType ::
  "(Expr \<Rightarrow> Type) \<Rightarrow> (Type \<Rightarrow> string) \<Rightarrow> Expr list \<Rightarrow> Type \<Rightarrow> Checker \<Rightarrow> Packages
     \<Rightarrow> error + (Type \<times> Checker \<times> Packages)" where
  "concreteType rawExpr String params genType check pkgs =
     (case genType of
        NamedT (Named obj underlying methods typeParams) \<Rightarrow>
          (case createTypeMap rawExpr params typeParams check of (typeMap, check') \<Rightarrow>
           (case replaceTypesInNamed (Named obj underlying methods typeParams) String typeMap pkgs of
              Inl e \<Rightarrow> Inl e
            | Inr (newNamed, pkgs1) \<Rightarrow>
                (case replaceTypesInMethods methods String typeMap pkgs1 of
                   Inl e \<Rightarrow> Inl e
                 | Inr (newMethods, pkgs2) \<Rightarrow>
                     (let newType = ConcreteNamedT (ConcreteNamed obj (namedUnderlying newNamed)
                                      newMethods [] typeParams typeMap) in
                      case addGenericUsage String obj newType typeMap pkgs2 of
                        Inl e \<Rightarrow> Inl e
                      | Inr pkgs3 \<Rightarrow> Inr (newType, check', pkgs3)))))
      | SignatureT sig \<Rightarrow>
          (case createTypeMap rawExpr params (sigTypeParams sig) check of (typeMap, check') \<Rightarrow>
           (case replaceTypesInSignature sig String typeMap pkgs of
              Inl e \<Rightarrow> Inl e
            | Inr (newSig, pkgs1) \<Rightarrow>
                (let newType = ConcreteSignatureT (setObj (sigObj sig) (setSigTypeParams [] newSig))
                                 (sigTypeParams sig) typeMap in
                 case sigObj sig of
                   None \<Rightarrow> Inr (newType, check', pkgs1)
                 | Some obj \<Rightarrow>
                     (case addGenericUsage String obj newType typeMap pkgs1 of
                        Inl e \<Rightarrow> Inl e
                      | Inr pkgs2 \<Rightarrow> Inr (newType, check', pkgs2)))))
      | _ \<Rightarrow> Inr (NilType, errorf (UnexpectedGeneric (check_pos check)) check, pkgs))"

section \<open>Tree traversal (astutil.Apply)\<close>

text \<open>
  Modelled from the spec: \<open>astutil.Apply\<close> and its \<open>Cursor\<close> are not among the sources.
  The specification says that the transformer walks the syntax tree twice and that a pass
  replaces, deletes or inserts declarations and rewrites expressions; the transformer's own
  callbacks show the rest of the contract they rely on: \<open>pre\<close> is called on a node before
  its children, returning false skips the children, \<open>post\<close> is called after the children,
  \<open>Replace\<close> puts a node in the place of the current one, \<open>Delete\<close> and
  \<open>InsertBefore\<close> act on the list that contains the current node. After \<open>pre\<close> has
  replaced a node, the walk goes on with the children of the node it was called on, not
  with those of the replacement, and the result of that walk is dropped with that node.
  The first error in walk order is the panic that ends the walk.
\<close>

fun collect :: "(error + 'a) list \<Rightarrow> error + 'a list" where
  "collect [] = Inr []"
| "collect (Inl e # rs) = Inl e"
| "collect (Inr x # rs) = (case collect rs of Inl e \<Rightarrow> Inl e | Inr xs \<Rightarrow> Inr (x # xs))"

definition both :: "error + 'a \<Rightarrow> error + 'b \<Rightarrow> error + ('a \<times> 'b)" where
  "both a b =
     (case a of Inl e \<Rightarrow> Inl e | Inr x \<Rightarrow> (case b of Inl e \<Rightarrow> Inl e | Inr y \<Rightarrow> Inr (x, y)))"

definition optional :: "(error + 'a) option \<Rightarrow> error + 'a option" where
  "optional a = (case a of None \<Rightarrow> Inr None | Some (Inl e) \<Rightarrow> Inl e | Some (Inr x) \<Rightarrow> Inr (Some x))"

definition lift :: "('a \<Rightarrow> 'b) \<Rightarrow> error + 'a \<Rightarrow> error + 'b" where
  "lift f a = (case a of Inl e \<Rightarrow> Inl e | Inr x \<Rightarrow> Inr (f x))"

text \<open>
  A \<open>pre\<close> callback on an expression node gives the replacement, if it called
  \<open>Replace\<close>, and its return value. A callback that replaces an identifier in a field
  of type \<open>*ast.Ident\<close> by a node of another type panics in \<open>Replace\<close>.
\<close>

type_synonym PreFunc = "Expr \<Rightarrow> error + (Expr option \<times> bool)"

definition visit :: "PreFunc \<Rightarrow> Expr \<Rightarrow> error + Expr \<Rightarrow> error + Expr" where
  "visit pre n children =
     (case pre n of
        Inl e \<Rightarrow> Inl e
      | Inr (replacement, descend) \<Rightarrow>
          (if descend then
             (case children of
                Inl e \<Rightarrow> Inl e
              | Inr n' \<Rightarrow> Inr (case replacement of None \<Rightarrow> n' | Some r \<Rightarrow> r))
           else Inr (case replacement of None \<Rightarrow> n | Some r \<Rightarrow> r)))"

definition visitName :: "PreFunc \<Rightarrow> string \<Rightarrow> error + string" where
  "visitName pre name =
     (case pre (Ident name) of
        Inl e \<Rightarrow> Inl e
      | Inr (None, descend) \<Rightarrow> Inr name
      | Inr (Some (Ident name'), descend) \<Rightarrow> Inr name'
      | Inr (Some r, descend) \<Rightarrow> Inl CursorPanic)"

primrec applyPre :: "Expr \<Rightarrow> PreFunc \<Rightarrow> error + Expr"
  and applyPreField :: "Field \<Rightarrow> PreFunc \<Rightarrow> error + Field"
where
  "applyPre (Ident name) = (\<lambda>pre. visit pre (Ident name) (Inr (Ident name)))"
| "applyPre (BasicLit v) = (\<lambda>pre. visit pre (BasicLit v) (Inr (BasicLit v)))"
| "applyPre (SelectorExpr x sel) = (\<lambda>pre. visit pre (SelectorExpr x sel)
     (lift (\<lambda>(x', sel'). SelectorExpr x' sel') (both (applyPre x pre) (visitName pre sel))))"
| "applyPre (StarExpr x) = (\<lambda>pre. visit pre (StarExpr x) (lift StarExpr (applyPre x pre)))"
| "applyPre (ParenExpr x) = (\<lambda>pre. visit pre (ParenExpr x) (lift ParenExpr (applyPre x pre)))"
| "applyPre (IndexExpr x i) = (\<lambda>pre. visit pre (IndexExpr x i)
     (lift (\<lambda>(x', i'). IndexExpr x' i') (both (applyPre x pre) (applyPre i pre))))"
| "applyPre (TypeArgExpr x ts) = (\<lambda>pre. visit pre (TypeArgExpr x ts)
     (lift (\<lambda>(x', ts'). TypeArgExpr x' ts')
        (both (applyPre x pre) (collect (map (\<lambda>t. applyPre t pre) ts)))))"
| "applyPre (CallExpr f args) = (\<lambda>pre. visit pre (CallExpr f args)
     (lift (\<lambda>(f', args'). CallExpr f' args')
        (both (applyPre f pre) (collect (map (\<lambda>a. applyPre a pre) args)))))"
| "applyPre (CompositeLit t elts) = (\<lambda>pre. visit pre (CompositeLit t elts)
     (lift (\<lambda>(t', elts'). CompositeLit t' elts')
        (both (optional (map_option (\<lambda>x. applyPre x pre) t))
              (collect (map (\<lambda>a. applyPre a pre) elts)))))"
| "applyPre (KeyValueExpr k v) = (\<lambda>pre. visit pre (KeyValueExpr k v)
     (lift (\<lambda>(k', v'). KeyValueExpr k' v') (both (applyPre k pre) (applyPre v pre))))"
| "applyPre (ArrayType len elt) = (\<lambda>pre. visit pre (ArrayType len elt)
     (lift (\<lambda>(len', elt'). ArrayType len' elt')
        (both (optional (map_option (\<lambda>x. applyPre x pre) len)) (applyPre elt pre))))"
| "applyPre (MapType k v) = (\<lambda>pre. visit pre (MapType k v)
     (lift (\<lambda>(k', v'). MapType k' v') (both (applyPre k pre) (applyPre v pre))))"
| "applyPre (StructType flds) = (\<lambda>pre. visit pre (StructType flds)
     (lift StructType (collect (map (\<lambda>f. applyPreField f pre) flds))))"
| "applyPre (FuncType params results) = (\<lambda>pre. visit pre (FuncType params results)
     (lift (\<lambda>(ps, rs). FuncType ps rs)
        (both (collect (map (\<lambda>f. applyPreField f pre) params))
              (collect (map (\<lambda>f. applyPreField f pre) results)))))"
| "applyPreField (Field names t) = (\<lambda>pre.
     lift (\<lambda>(names', t'). Field names' t')
       (both (collect (map (visitName pre) names)) (applyPre t pre)))"

text \<open>A \<open>post\<close> callback that returns true, by the replacement it makes.\<close>

type_synonym PostFunc = "Expr \<Rightarrow> Expr option"

definition visitPost :: "PostFunc \<Rightarrow> error + Expr \<Rightarrow> error + Expr" where
  "visitPost post children =
     (case children of
        Inl e \<Rightarrow> Inl e
      | Inr n \<Rightarrow> Inr (case post n of None \<Rightarrow> n | Some r \<Rightarrow> r))"

definition visitNamePost :: "PostFunc \<Rightarrow> string \<Rightarrow> error + string" where
  "visitNamePost post name =
     (case post (Ident name) of
        None \<Rightarrow> Inr name
      | Some (Ident name') \<Rightarrow> Inr name'
      | Some r \<Rightarrow> Inl CursorPanic)"

primrec applyPost :: "Expr \<Rightarrow> PostFunc \<Rightarrow> error + Expr"
  and applyPostField :: "Field \<Rightarrow> PostFunc \<Rightarrow> error + Field"
where
  "applyPost (Ident name) = (\<lambda>post. visitPost post (Inr (Ident name)))"
| "applyPost (BasicLit v) = (\<lambda>post. visitPost post (Inr (BasicLit v)))"
| "applyPost (SelectorExpr x sel) = (\<lambda>post. visitPost post
     (lift (\<lambda>(x', sel'). SelectorExpr x' sel') (both (applyPost x post) (visitNamePost post sel))))"
| "applyPost (StarExpr x) = (\<lambda>post. visitPost post (lift StarExpr (applyPost x post)))"
| "applyPost (ParenExpr x) = (\<lambda>post. visitPost post (lift ParenExpr (applyPost x post)))"
| "applyPost (IndexExpr x i) = (\<lambda>post. visitPost post
     (lift (\<lambda>(x', i'). IndexExpr x' i') (both (applyPost x post) (applyPost i post))))"
| "applyPost (TypeArgExpr x ts) = (\<lambda>post. visitPost post
     (lift (\<lambda>(x', ts'). TypeArgExpr x' ts')
        (both (applyPost x post) (collect (map (\<lambda>t. applyPost t post) ts)))))"
| "applyPost (CallExpr f args) = (\<lambda>post. visitPost post
     (lift (\<lambda>(f', args'). CallExpr f' args')
        (both (applyPost f post) (collect (map (\<lambda>a. applyPost a post) args)))))"
| "applyPost (CompositeLit t elts) = (\<lambda>post. visitPost post
     (lift (\<lambda>(t', elts'). CompositeLit t' elts')
        (both (optional (map_option (\<lambda>x. applyPost x post) t))
              (collect (map (\<lambda>a. applyPost a post) elts)))))"
| "applyPost (KeyValueExpr k v) = (\<lambda>post. visitPost post
     (lift (\<lambda>(k', v'). KeyValueExpr k' v') (both (applyPost k post) (applyPost v post))))"
| "applyPost (ArrayType len elt) = (\<lambda>post. visitPost post
     (lift (\<lambda>(len', elt'). ArrayType len' elt')
        (both (optional (map_option (\<lambda>x. applyPost x post) len)) (applyPost elt post))))"
| "applyPost (MapType k v) = (\<lambda>post. visitPost post
     (lift (\<lambda>(k', v'). MapType k' v') (both (applyPost k post) (applyPost v post))))"
| "applyPost (StructType flds) = (\<lambda>post. visitPost post
     (lift StructType (collect (map (\<lambda>f. applyPostField f post) flds))))"
| "applyPost (FuncType params results) = (\<lambda>post. visitPost post
     (lift (\<lambda>(ps, rs). FuncType ps rs)
        (both (collect (map (\<lambda>f. applyPostField f post) params))
              (collect (map (\<lambda>f. applyPostField f post) results)))))"
| "applyPostField (Field names t) = (\<lambda>post.
     lift (\<lambda>(names', t'). Field names' t')
       (both (collect (map (visitNamePost post) names)) (applyPost t post)))"

text \<open>
  The walk of specs, statements, declarations and files for a callback that acts on
  expression nodes only. The names of a \<open>TypeParamDecl\<close> are not walked: every walk of
  the transformer either has set \<open>TypeParams\<close> to nil before, or acts on no identifier.
\<close>

record Walker =
  onExpr :: "Expr \<Rightarrow> error + Expr"
  onName :: "string \<Rightarrow> error + string"
  onField :: "Field \<Rightarrow> error + Field"

definition preWalker :: "PreFunc \<Rightarrow> Walker" where
  "preWalker pre =
     \<lparr>onExpr = (\<lambda>e. applyPre e pre), onName = visitName pre, onField = (\<lambda>f. applyPreField f pre)\<rparr>"

definition postWalker :: "PostFunc \<Rightarrow> Walker" where
  "postWalker post =
     \<lparr>onExpr = (\<lambda>e. applyPost e post), onName = visitNamePost post,
      onField = (\<lambda>f. applyPostField f post)\<rparr>"

fun walkSpec :: "Walker \<Rightarrow> Spec \<Rightarrow> error + Spec" where
  "walkSpec w (ImportSpec path) = Inr (ImportSpec path)"
| "walkSpec w (ValueSpec names t values) =
     lift (\<lambda>(names', t', values'). ValueSpec names' t' values')
       (both (collect (map (onName w) names))
          (both (optional (map_option (onExpr w) t)) (collect (map (onExpr w) values))))"
| "walkSpec w (TypeSpec name typeParams t) =
     lift (\<lambda>(name', t'). TypeSpec name' typeParams t') (both (onName w name) (onExpr w t))"

fun walkGenDecl :: "Walker \<Rightarrow> GenDecl \<Rightarrow> error + GenDecl" where
  "walkGenDecl w (GenDecl tok specs) = lift (GenDecl tok) (collect (map (walkSpec w) specs))"

primrec walkStmt :: "Stmt \<Rightarrow> Walker \<Rightarrow> error + Stmt" where
  "walkStmt (ExprStmt x) = (\<lambda>w. lift ExprStmt (onExpr w x))"
| "walkStmt (AssignStmt lhs rhs) = (\<lambda>w.
     lift (\<lambda>(lhs', rhs'). AssignStmt lhs' rhs')
       (both (collect (map (onExpr w) lhs)) (collect (map (onExpr w) rhs))))"
| "walkStmt (ReturnStmt results) = (\<lambda>w. lift ReturnStmt (collect (map (onExpr w) results)))"
| "walkStmt (DeclStmt d) = (\<lambda>w. lift DeclStmt (walkGenDecl w d))"
| "walkStmt (BlockStmt list) = (\<lambda>w. lift BlockStmt (collect (map (\<lambda>s. walkStmt s w) list)))"

fun walkFuncDecl :: "Walker \<Rightarrow> FuncDecl \<Rightarrow> error + FuncDecl" where
  "walkFuncDecl w (FuncDecl recv name typeParams params results body) =
     lift (\<lambda>(recv', name', params', results', body').
             FuncDecl recv' name' typeParams params' results' body')
       (both (optional (map_option (\<lambda>l. collect (map (onField w) l)) recv))
          (both (onName w name)
             (both (collect (map (onField w) params))
                (both (collect (map (onField w) results))
                   (optional (map_option (\<lambda>l. collect (map (\<lambda>s. walkStmt s w) l)) body))))))"

fun walkDecl :: "Walker \<Rightarrow> Decl \<Rightarrow> error + Decl" where
  "walkDecl w (DeclGen d) = lift DeclGen (walkGenDecl w d)"
| "walkDecl w (DeclFunc d) = lift DeclFunc (walkFuncDecl w d)"

fun walkFile :: "Walker \<Rightarrow> File \<Rightarrow> error + File" where
  "walkFile w (File name decls) =
     lift (\<lambda>(name', decls'). File name' decls') (both (onName w name) (collect (map (walkDecl w) decls)))"

text \<open>
  The walk for a \<open>pre\<close> callback that acts on declaration nodes and returns true: the
  callback gives the cursor calls it made, in order. A top-level declaration sits in the
  list \<open>File.Decls\<close>; the declaration of a \<open>DeclStmt\<close> sits in a field, where
  \<open>Delete\<close> and \<open>InsertBefore\<close> panic.
\<close>

datatype CursorOp = Replace Decl | Delete | InsertBefore Decl

type_synonym DeclPreFunc = "Decl \<Rightarrow> error + CursorOp list"

fun inSlice :: "CursorOp list \<Rightarrow> Decl list \<Rightarrow> Decl option \<Rightarrow> Decl list" where
  "inSlice [] before current = before @ (case current of None \<Rightarrow> [] | Some n \<Rightarrow> [n])"
| "inSlice (Replace n # ops) before current = inSlice ops before (Some n)"
| "inSlice (Delete # ops) before current = inSlice ops before None"
| "inSlice (InsertBefore n # ops) before current = inSlice ops (before @ [n]) current"

fun inField :: "CursorOp list \<Rightarrow> GenDecl \<Rightarrow> error + GenDecl" where
  "inField [] current = Inr current"
| "inField (Replace (DeclGen n) # ops) current = inField ops n"
| "inField (op # ops) current = Inl CursorPanic"

primrec declStmts :: "Stmt \<Rightarrow> DeclPreFunc \<Rightarrow> error + Stmt" where
  "declStmts (ExprStmt x) = (\<lambda>pre. Inr (ExprStmt x))"
| "declStmts (AssignStmt lhs rhs) = (\<lambda>pre. Inr (AssignStmt lhs rhs))"
| "declStmts (ReturnStmt results) = (\<lambda>pre. Inr (ReturnStmt results))"
| "declStmts (DeclStmt d) = (\<lambda>pre.
     (case pre (DeclGen d) of
        Inl e \<Rightarrow> Inl e
      | Inr ops \<Rightarrow> lift DeclStmt (inField ops d)))"
| "declStmts (BlockStmt list) = (\<lambda>pre. lift BlockStmt (collect (map (\<lambda>s. declStmts s pre) list)))"

fun declChildren :: "DeclPreFunc \<Rightarrow> Decl \<Rightarrow> error + Decl" where
  "declChildren pre (DeclGen d) = Inr (DeclGen d)"
| "declChildren pre (DeclFunc (FuncDecl recv name typeParams params results body)) =
     lift (\<lambda>body'. DeclFunc (FuncDecl recv name typeParams params results body'))
       (optional (map_option (\<lambda>l. collect (map (\<lambda>s. declStmts s pre) l)) body))"

definition applyDecl :: "DeclPreFunc \<Rightarrow> Decl \<Rightarrow> error + Decl list" where
  "applyDecl pre n =
     (case pre n of
        Inl e \<Rightarrow> Inl e
      | Inr ops \<Rightarrow> lift (\<lambda>n'. inSlice ops [] (Some n')) (declChildren pre n))"

fun applyDecls :: "DeclPreFunc \<Rightarrow> File \<Rightarrow> error + File" where
  "applyDecls pre (File name decls) =
     lift (\<lambda>ds. File name (concat ds)) (collect (map (applyDecl pre) decls))"

section \<open>The transformer (package transform)\<close>

text \<open>
  What a \<open>Transformer\<close> reads: \<open>trans.Pkg.Generics()\<close>, \<open>trans.Info.Selections\<close> and
  \<open>trans.Info.Uses\<close>. The two maps of \<open>Info\<close> are keyed by the node; here by the
  selector expression and by the identifier's name. A \<open>Selection\<close> has its kind, the
  type of its receiver and the name of the selected object; an object in \<open>Uses\<close> is a
  type name, with \<open>IsAlias()\<close> and \<open>Type()\<close>, or something else. The transformer reads a
  \<open>GenericDecl\<close> through \<open>decl.Name\<close>, \<open>decl.Type.TypeParams()\<close> and \<open>decl.Usages\<close>:
  the record's name, type parameters and usages, in the order of the association list.
\<close>

datatype SelectionKind = FieldVal | MethodVal | MethodExpr

record Selection =
  sel_Kind :: SelectionKind
  sel_Recv :: Type
  sel_Obj :: string

datatype UsesObject = TypeName bool Type | OtherObject

record Transformer =
  Generics :: Generics
  Selections :: "Expr \<rightharpoonup> Selection"
  Uses :: "string \<rightharpoonup> UsesObject"

text \<open>
  The functions the transformer calls that are not among the sources, as parameters:
  \<open>typeToExpr\<close>, \<open>typeToSafeString\<close> and \<open>exprToSafeString\<close> of package transform,
  \<open>printer.Fprint\<close> on a function declaration, and \<open>sort.Slice\<close> on specs and on
  function declarations, given the \<open>less\<close> function on the elements.
\<close>

record Lib =
  typeToExpr :: "Type \<Rightarrow> Expr"
  typeToSafeString :: "Type \<Rightarrow> string"
  exprToSafeString :: "Expr \<Rightarrow> string"
  Fprint :: "FuncDecl \<Rightarrow> string"
  sortSpecs :: "(Spec \<Rightarrow> Spec \<Rightarrow> bool) \<Rightarrow> Spec list \<Rightarrow> Spec list"
  sortFuncDecls :: "(FuncDecl \<Rightarrow> FuncDecl \<Rightarrow> bool) \<Rightarrow> FuncDecl list \<Rightarrow> FuncDecl list"

definition formatTypeArg :: "Lib \<Rightarrow> Transformer \<Rightarrow> Expr \<Rightarrow> error + string" where
  "formatTypeArg lib tr arg =
     (case arg of
        Ident name \<Rightarrow>
          (case Uses tr name of
             Some (TypeName isAlias typ) \<Rightarrow>
               (if isAlias then lift (typeToSafeString lib) (Underlying typ)
                else Inr (exprToSafeString lib arg))
           | _ \<Rightarrow> Inr (exprToSafeString lib arg))
      | _ \<Rightarrow> Inr (exprToSafeString lib arg))"

definition formatTypeArgs :: "Lib \<Rightarrow> Transformer \<Rightarrow> Expr list \<Rightarrow> error + string" where
  "formatTypeArgs lib tr args = lift (join ''__'') (collect (map (formatTypeArg lib tr) args))"

definition concreteTypeName :: "Lib \<Rightarrow> GenericDecl \<Rightarrow> GenericUsage \<Rightarrow> string" where
  "concreteTypeName lib decl usg =
     (let stringParams = map (\<lambda>param. typeToSafeString lib (index (usg_typeMap usg) param))
                           (decl_typeParams decl) in
      if length stringParams = 0 then decl_name decl
      else decl_name decl @ ''__'' @ join ''__'' stringParams)"

definition concreteTypeExpr :: "Lib \<Rightarrow> Transformer \<Rightarrow> Expr \<Rightarrow> Expr list \<Rightarrow> error + Expr" where
  "concreteTypeExpr lib tr x types =
     (case x of
        Ident name \<Rightarrow>
          lift (\<lambda>args. Ident (name @ ''__'' @ args)) (formatTypeArgs lib tr types)
      | SelectorExpr x' sel \<Rightarrow>
          lift (\<lambda>args. SelectorExpr x' (sel @ ''__'' @ args)) (formatTypeArgs lib tr types)
      | _ \<Rightarrow> Inl UnsupportedTypeArgs)"

definition recvTypeParams :: "Lib \<Rightarrow> string list \<Rightarrow> TypeMap \<Rightarrow> Expr list" where
  "recvTypeParams lib typeParams typeMap =
     map (\<lambda>param. typeToExpr lib (index typeMap param)) typeParams"

text \<open>
  \<open>expandReceiverType\<close>: the callback, and its walk over \<open>funcDecl.Recv\<close>. \<open>genDecl\<close>
  is a pointer that may be nil; reading \<open>genDecl.Name\<close> through nil is a runtime panic.
\<close>

definition expandReceiverPre :: "Lib \<Rightarrow> GenericDecl option \<Rightarrow> GenericUsage \<Rightarrow> PreFunc" where
  "expandReceiverPre lib genDecl usg n =
     (case n of
        TypeArgExpr x types \<Rightarrow> Inr (None, False)
      | Ident name \<Rightarrow>
          (case genDecl of
             None \<Rightarrow> Inl NilDereference
           | Some d \<Rightarrow>
               (if name = decl_name d then
                  Inr (Some (TypeArgExpr (Ident name)
                               (recvTypeParams lib (decl_typeParams d) (usg_typeMap usg))), True)
                else Inr (None, True)))
      | _ \<Rightarrow> Inr (None, True))"

fun expandReceiverType ::
  "Lib \<Rightarrow> FuncDecl \<Rightarrow> GenericDecl option \<Rightarrow> GenericUsage \<Rightarrow> error + FuncDecl" where
  "expandReceiverType lib (FuncDecl recv name typeParams params results body) genDecl usg =
     lift (\<lambda>recv'. FuncDecl recv' name typeParams params results body)
       (optional (map_option
          (\<lambda>l. collect (map (\<lambda>f. applyPreField f (expandReceiverPre lib genDecl usg)) l)) recv))"

text \<open>\<open>replaceIdentsInScope\<close>: the callback, and the walk it gives.\<close>

definition replaceIdentsPost :: "Lib \<Rightarrow> TypeMap \<Rightarrow> PostFunc" where
  "replaceIdentsPost lib typeMap n =
     (case n of
        Ident name \<Rightarrow>
          (case map_of typeMap name of
             Some typ \<Rightarrow> Some (typeToExpr lib typ)
           | None \<Rightarrow> None)
      | _ \<Rightarrow> None)"

definition replaceIdentsInScope :: "Lib \<Rightarrow> TypeMap \<Rightarrow> Walker" where
  "replaceIdentsInScope lib typeMap = postWalker (replaceIdentsPost lib typeMap)"

text \<open>
  \<open>generateTypeSpecs\<close>, for the name, type parameters and type of the type spec;
  \<open>generateTypeSpec\<close> is the body of its loop over the usages. A clone is the value
  itself.
\<close>

definition generateTypeSpec ::
  "Lib \<Rightarrow> GenericDecl \<Rightarrow> Expr \<Rightarrow> GenericUsage \<Rightarrow> error + Spec" where
  "generateTypeSpec lib genericDecl t usg =
     walkSpec (replaceIdentsInScope lib (usg_typeMap usg))
       (TypeSpec (concreteTypeName lib genericDecl usg) None t)"

definition generateTypeSpecs ::
  "Lib \<Rightarrow> Transformer \<Rightarrow> string \<Rightarrow> TypeParamDecl option \<Rightarrow> Expr \<Rightarrow> error + Spec list" where
  "generateTypeSpecs lib tr name typeParams t =
     (case Generics tr name of
        None \<Rightarrow> Inl (GenericNotFound name)
      | Some genericDecl \<Rightarrow>
          (let t' = (case typeParams of
                       None \<Rightarrow> (case t of ArrayType (Some (Ident len)) elt \<Rightarrow> elt | _ \<Rightarrow> t)
                     | Some tp \<Rightarrow> t) in
           collect (map (\<lambda>(key, usg). generateTypeSpec lib genericDecl t' usg)
                      (decl_usages genericDecl))))"

text \<open>
  \<open>generateFuncDecls\<close>. \<open>generateFuncDecl\<close> is the body of its two loops over usages
  (with \<open>genFuncDecl\<close> in the first, nil in the second); \<open>receiverType\<close>, \<open>unstar\<close> and
  \<open>untypeArg\<close> are its first three \<open>if\<close> statements; \<open>generateFuncDeclsFor\<close> is the
  part from \<open>fkey\<close> on.
\<close>

fun setName :: "string \<Rightarrow> FuncDecl \<Rightarrow> FuncDecl" where
  "setName newName (FuncDecl recv name typeParams params results body) =
     FuncDecl recv newName typeParams params results body"

fun setTypeParams :: "TypeParamDecl option \<Rightarrow> FuncDecl \<Rightarrow> FuncDecl" where
  "setTypeParams newTypeParams (FuncDecl recv name typeParams params results body) =
     FuncDecl recv name newTypeParams params results body"

definition generateFuncDecl ::
  "Lib \<Rightarrow> FuncDecl \<Rightarrow> GenericDecl option \<Rightarrow> GenericDecl option \<Rightarrow> GenericUsage
     \<Rightarrow> error + FuncDecl" where
  "generateFuncDecl lib funcDecl genRecvDecl genFuncDecl usg =
     (case expandReceiverType lib funcDecl genRecvDecl usg of
        Inl e \<Rightarrow> Inl e
      | Inr newFunc \<Rightarrow>
          walkFuncDecl (replaceIdentsInScope lib (usg_typeMap usg))
            (case genFuncDecl of
               Some d \<Rightarrow> setTypeParams None (setName (concreteTypeName lib d usg) newFunc)
             | None \<Rightarrow> newFunc))"

definition receiverType :: "FuncDecl \<Rightarrow> Expr option" where
  "receiverType funcDecl =
     (case fdRecv funcDecl of
        Some [Field names t] \<Rightarrow> Some t
      | _ \<Rightarrow> None)"

definition unstar :: "Expr option \<Rightarrow> Expr option" where
  "unstar recv = (case recv of Some (StarExpr x) \<Rightarrow> Some x | _ \<Rightarrow> recv)"

definition untypeArg :: "Expr option \<Rightarrow> bool \<times> Expr option" where
  "untypeArg recv = (case recv of Some (TypeArgExpr x types) \<Rightarrow> (True, Some x) | _ \<Rightarrow> (False, recv))"

definition generateFuncDeclsFor ::
  "Lib \<Rightarrow> Transformer \<Rightarrow> FuncDecl \<Rightarrow> GenericDecl option \<Rightarrow> string option \<Rightarrow> bool
     \<Rightarrow> error + (FuncDecl list \<times> bool)" where
  "generateFuncDeclsFor lib tr funcDecl genRecvDecl recvTypeName recvIsGeneric =
     (let fkey = (case recvTypeName of
                    None \<Rightarrow> fdName funcDecl
                  | Some r \<Rightarrow> r @ ''.'' @ fdName funcDecl);
          genFuncDecl = Generics tr fkey in
      if genFuncDecl = None \<and> fdTypeParams funcDecl \<noteq> None then Inl (GenericNotFound fkey)
      else
        (case genFuncDecl of
           Some gfd \<Rightarrow>
             lift (\<lambda>newFuncs. (newFuncs, recvIsGeneric))
               (collect (map (\<lambda>(key, usg). generateFuncDecl lib funcDecl genRecvDecl genFuncDecl usg)
                           (decl_usages gfd)))
         | None \<Rightarrow>
             (case genRecvDecl of
                Some grd \<Rightarrow>
                  lift (\<lambda>newFuncs. (newFuncs, recvIsGeneric))
                    (collect (map (\<lambda>(key, usg). generateFuncDecl lib funcDecl genRecvDecl None usg)
                                (decl_usages grd)))
              | None \<Rightarrow> Inr ([], recvIsGeneric))))"

definition generateFuncDecls ::
  "Lib \<Rightarrow> Transformer \<Rightarrow> FuncDecl \<Rightarrow> error + (FuncDecl list \<times> bool)" where
  "generateFuncDecls lib tr funcDecl =
     (case untypeArg (unstar (receiverType funcDecl)) of (recvHasTypeArgs, recv) \<Rightarrow>
        (case recv of
           None \<Rightarrow> generateFuncDeclsFor lib tr funcDecl None None False
         | Some (Ident recvTypeName) \<Rightarrow>
             (if Generics tr recvTypeName = None \<and> recvHasTypeArgs
                then Inl (GenericNotFound recvTypeName)
              else generateFuncDeclsFor lib tr funcDecl (Generics tr recvTypeName)
                     (Some recvTypeName) True)
         | Some other \<Rightarrow> Inl InvalidReceiver))"

text \<open>
  The \<open>less\<close> functions of the two sorts, \<open>sortFuncs\<close>, and \<open>generateConcreteTypes\<close>
  with the loop over the specs of a \<open>GenDecl\<close>.
\<close>

definition specLess :: "Spec \<Rightarrow> Spec \<Rightarrow> bool" where
  "specLess i j =
     (case i of
        TypeSpec iName itp it \<Rightarrow>
          (case j of
             TypeSpec jName jtp jt \<Rightarrow> iName < jName
           | _ \<Rightarrow> True)
      | _ \<Rightarrow> True)"

definition funcLess :: "Lib \<Rightarrow> FuncDecl \<Rightarrow> FuncDecl \<Rightarrow> bool" where
  "funcLess lib i j =
     (if fdName i = fdName j then Fprint lib i < Fprint lib j else fdName i < fdName j)"

definition sortFuncs :: "Lib \<Rightarrow> FuncDecl list \<Rightarrow> FuncDecl list" where
  "sortFuncs lib funcs = sortFuncDecls lib (funcLess lib) funcs"

fun specsLoop ::
  "Lib \<Rightarrow> Transformer \<Rightarrow> Spec list \<Rightarrow> Spec list \<Rightarrow> bool \<Rightarrow> error + (Spec list \<times> bool)" where
  "specsLoop lib tr [] newTypeSpecs used = Inr (newTypeSpecs, used)"
| "specsLoop lib tr (spec # specs) newTypeSpecs used =
     (case spec of
        TypeSpec name typeParams t \<Rightarrow>
          (case Generics tr name of
             None \<Rightarrow> specsLoop lib tr specs (newTypeSpecs @ [spec]) True
           | Some found \<Rightarrow>
               (case generateTypeSpecs lib tr name typeParams t of
                  Inl e \<Rightarrow> Inl e
                | Inr generated \<Rightarrow> specsLoop lib tr specs (newTypeSpecs @ generated) used))
      | _ \<Rightarrow> specsLoop lib tr specs (newTypeSpecs @ [spec]) True)"

definition generateConcreteTypes :: "Lib \<Rightarrow> Transformer \<Rightarrow> Decl \<Rightarrow> error + CursorOp list" where
  "generateConcreteTypes lib tr n =
     (case n of
        DeclGen (GenDecl tok specs) \<Rightarrow>
          (case specsLoop lib tr specs [] False of
             Inl e \<Rightarrow> Inl e
           | Inr (newTypeSpecs, used) \<Rightarrow>
               (if length newTypeSpecs > 0 then
                  Inr [Replace (DeclGen (GenDecl tok (sortSpecs lib specLess newTypeSpecs)))]
                else if \<not> used then Inr [Delete]
                else Inr []))
      | DeclFunc funcDecl \<Rightarrow>
          (case generateFuncDecls lib tr funcDecl of
             Inl e \<Rightarrow> Inl e
           | Inr (newFuncs, recvIsGeneric) \<Rightarrow>
               (if length newFuncs = 0 then
                  (if recvIsGeneric \<or> fdTypeParams funcDecl \<noteq> None then Inr [Delete] else Inr [])
                else Inr (map (\<lambda>newFunc. InsertBefore (DeclFunc newFunc)) (sortFuncs lib newFuncs)
                          @ [Delete]))))"

text \<open>\<open>replaceGenericIdents\<close>; \<open>selectionKey\<close> is its \<open>switch selection.Kind()\<close>.\<close>

definition selectionKey :: "Selection \<Rightarrow> string" where
  "selectionKey selection =
     (case sel_Kind selection of
        FieldVal \<Rightarrow> sel_Obj selection
      | MethodVal \<Rightarrow>
          (case sel_Recv selection of
             ConcreteNamedT (ConcreteNamed obj u ms ntps typeParams typeMap) \<Rightarrow>
               oname obj @ ''.'' @ sel_Obj selection
           | _ \<Rightarrow> [])
      | _ \<Rightarrow> [])"

definition replaceGenericIdents :: "Lib \<Rightarrow> Transformer \<Rightarrow> PreFunc" where
  "replaceGenericIdents lib tr n =
     (case n of
        TypeArgExpr x types \<Rightarrow>
          lift (\<lambda>r. (Some r, True)) (concreteTypeExpr lib tr x types)
      | IndexExpr x i \<Rightarrow>
          (case x of
             Ident name \<Rightarrow>
               (case Generics tr name of
                  Some found \<Rightarrow> lift (\<lambda>r. (Some r, True)) (concreteTypeExpr lib tr x [i])
                | None \<Rightarrow> Inr (None, True))
           | SelectorExpr x' sel \<Rightarrow>
               (case Selections tr x of
                  None \<Rightarrow> Inr (None, True)
                | Some selection \<Rightarrow>
                    (if selectionKey selection \<noteq> [] then
                       (case Generics tr (selectionKey selection) of
                          Some found \<Rightarrow>
                            lift (\<lambda>r. (Some r, False)) (concreteTypeExpr lib tr x [i])
                        | None \<Rightarrow> Inr (None, True))
                     else Inr (None, True)))
           | _ \<Rightarrow> Inr (None, True))
      | _ \<Rightarrow> Inr (None, True))"

text \<open>\<open>Transformer.File\<close>.\<close>

definition Transformer_File :: "Lib \<Rightarrow> Transformer \<Rightarrow> File \<Rightarrow> error + File" where
  "Transformer_File lib tr f =
     (case applyDecls (generateConcreteTypes lib tr) f of
        Inl e \<Rightarrow> Inl e
      | Inr withConcreteTypes \<Rightarrow>
          walkFile (preWalker (replaceGenericIdents lib tr)) withConcreteTypes)"

section \<open>Properties of the registry, stated\<close>

text \<open>
  A registry holds no partial usage: no value of a recorded usage's map is itself a type
  parameter.
\<close>

definition noPartialUsage :: "Packages \<Rightarrow> bool" where
  "noPartialUsage pkgs =
     (\<forall>path name decl key usg.
        pkgs path name = Some decl \<longrightarrow> (key, usg) \<in> set (decl_usages decl) \<longrightarrow>
        \<not> list_ex (\<lambda>(k, t). isTypeParam t) (usg_typeMap usg))"

text \<open>
  The usage key in the specification's words: the string forms of \<open>typeMap[p]\<close>, for
  \<open>p\<close> in the declaration's type-parameter order, joined by the delimiter \<open>","\<close>.
\<close>

definition argsKey :: "(Type \<Rightarrow> string) \<Rightarrow> TypeMap \<Rightarrow> string list \<Rightarrow> string" where
  "argsKey String typeMap typeParams = join '','' (map (\<lambda>p. String (index typeMap p)) typeParams)"

text \<open>Two \<open>addGenericUsage\<close> calls for the same object, one after the other.\<close>

definition recordTwice ::
  "(Type \<Rightarrow> string) \<Rightarrow> Object \<Rightarrow> Type \<Rightarrow> TypeMap \<Rightarrow> Type \<Rightarrow> TypeMap \<Rightarrow> Packages \<Rightarrow> error + Packages" where
  "recordTwice String genObj typ1 typeMap1 typ2 typeMap2 pkgs =
     (case addGenericUsage String genObj typ1 typeMap1 pkgs of
        Inl e \<Rightarrow> Inl e
      | Inr pkgs1 \<Rightarrow> addGenericUsage String genObj typ2 typeMap2 pkgs1)"

section \<open>Example inputs\<close>

text \<open>
  A \<open>String\<close> method for the examples: the name of a basic type or of a type parameter.
\<close>

definition exString :: "Type \<Rightarrow> string" where
  "exString t = (case t of Basic name \<Rightarrow> name | TypeParam p \<Rightarrow> p | _ \<Rightarrow> ''?'')"

text \<open>
  \<open>type Box[T] struct { val T }\<close> in package \<open>main\<close>, its registry entry, and the usage
  \<open>Box[int]\<close>.
\<close>

definition boxObj :: Object where
  "boxObj = Object ''main'' ''Box''"

definition boxType :: Type where
  "boxType = NamedT (Named boxObj (StructT (Struct [Var ''val'' (TypeParam ''T'')] [])) [] [''T''])"

definition boxDecl :: GenericDecl where
  "boxDecl = \<lparr>decl_name = ''Box'', decl_typ = boxType, decl_typeParams = [''T''], decl_usages = []\<rparr>"

definition boxInt :: Type where
  "boxInt = ConcreteNamedT (ConcreteNamed boxObj (StructT (Struct [Var ''val'' (Basic ''int'')] []))
      [] [] [''T''] [(''T'', Basic ''int'')])"

definition boxRegistered :: Packages where
  "boxRegistered = addGenericDecl boxObj boxType [''T''] noPackages"

definition boxUsed :: Packages where
  "boxUsed = noPackages (''main'' := [''Box'' \<mapsto> boxDecl \<lparr>decl_usages :=
     [(''int'', \<lparr>usg_typeMap = [(''T'', Basic ''int'')], usg_typ = boxInt\<rparr>)]\<rparr>])"

text \<open>\<open>interface { Get() T }\<close> and \<open>interface { Get() int }\<close>.\<close>

definition getterOfT :: Type where
  "getterOfT = InterfaceT
     [Func ''Get'' (SignatureT (Signature None None (Some [Var [] (TypeParam ''T'')]) False [] [] None))]
     [] None"

definition getterOfInt :: Type where
  "getterOfInt = InterfaceT
     [Func ''Get'' (SignatureT (Signature None None (Some [Var [] (Basic ''int'')]) False [] [] None))]
     [] None"

text \<open>
  \<open>struct { next interface { Get() T }; last T }\<close>, the same struct with \<open>int\<close> for
  every \<open>T\<close>, and the struct with \<open>int\<close> for the \<open>T\<close> of \<open>last\<close> only.
\<close>

definition sourceOfT :: Type where
  "sourceOfT = StructT (Struct [Var ''next'' getterOfT, Var ''last'' (TypeParam ''T'')] [])"

definition sourceOfInt :: Type where
  "sourceOfInt = StructT (Struct [Var ''next'' getterOfInt, Var ''last'' (Basic ''int'')] [])"

definition sourceHalfReplaced :: Type where
  "sourceHalfReplaced = StructT (Struct [Var ''next'' getterOfT, Var ''last'' (Basic ''int'')] [])"

text \<open>
  A checker with no errors yet, and a \<open>rawExpr\<close> that types an identifier as the basic
  type of that name.
\<close>

definition basicExpr :: "Expr \<Rightarrow> Type" where
  "basicExpr e = (case e of Ident name \<Rightarrow> Basic name | _ \<Rightarrow> NilType)"

definition checker0 :: Checker where
  "checker0 = \<lparr>check_pos = 0, check_errors = []\<rparr>"

text \<open>
  Stand-ins for the functions of \<open>Lib\<close>, for the examples: a basic type or a type
  parameter is printed as its name and an identifier as its name; a function declaration
  is printed as \<open>func\<close>, its receiver list in parentheses if it has one, and its name.
  The sort is the insertion sort that \<open>sort.Slice\<close> runs on a slice of fewer than seven
  elements: each element in turn is swapped with its left neighbour as long as
  \<open>less(element, neighbour)\<close> holds. \<open>moveLeft\<close> takes the elements to the left of the
  current one, nearest first.
\<close>

definition exTypeToExpr :: "Type \<Rightarrow> Expr" where
  "exTypeToExpr t = (case t of Basic name \<Rightarrow> Ident name | TypeParam p \<Rightarrow> Ident p | _ \<Rightarrow> Ident ''?'')"

definition exExprString :: "Expr \<Rightarrow> string" where
  "exExprString e = (case e of Ident name \<Rightarrow> name | _ \<Rightarrow> ''_'')"

fun exFieldString :: "Field \<Rightarrow> string" where
  "exFieldString (Field names t) = join '', '' names @ '' '' @ exExprString t"

fun exFprint :: "FuncDecl \<Rightarrow> string" where
  "exFprint (FuncDecl recv name typeParams params results body) =
     ''func '' @
     (case recv of
        None \<Rightarrow> []
      | Some l \<Rightarrow> ''('' @ join '', '' (map exFieldString l) @ '') '') @
     name"

fun moveLeft :: "('a \<Rightarrow> 'a \<Rightarrow> bool) \<Rightarrow> 'a \<Rightarrow> 'a list \<Rightarrow> 'a list" where
  "moveLeft lt x [] = [x]"
| "moveLeft lt x (y # ys) = (if lt x y then y # moveLeft lt x ys else x # y # ys)"

definition insertionSort :: "('a \<Rightarrow> 'a \<Rightarrow> bool) \<Rightarrow> 'a list \<Rightarrow> 'a list" where
  "insertionSort lt xs = rev (fold (moveLeft lt) xs [])"

definition exLib :: Lib where
  "exLib = \<lparr>typeToExpr = exTypeToExpr, typeToSafeString = exString,
            exprToSafeString = exExprString, Fprint = exFprint,
            sortSpecs = insertionSort, sortFuncDecls = insertionSort\<rparr>"

text \<open>
  A package without generic declarations; \<open>func main() {}\<close>; and the method
  \<open>func (s S) m() {}\<close> on a type \<open>S\<close> that is not generic.
\<close>

definition noGenerics :: Transformer where
  "noGenerics = \<lparr>Generics = Map.empty, Selections = Map.empty, Uses = Map.empty\<rparr>"

definition mainFunc :: FuncDecl where
  "mainFunc = FuncDecl None ''main'' None [] [] (Some [])"

definition plainMethod :: FuncDecl where
  "plainMethod = FuncDecl (Some [Field [''s''] (Ident ''S'')]) ''m'' None [] [] (Some [])"

text \<open>
  The generic method \<open>func (s S) m[T](x T) {}\<close> on a type \<open>S\<close> that is not generic,
  registered as \<open>S.m\<close> with the one usage \<open>m[int]\<close>.
\<close>

definition genericMethod :: FuncDecl where
  "genericMethod = FuncDecl (Some [Field [''s''] (Ident ''S'')]) ''m''
     (Some (TypeParamDecl [''T''])) [Field [''x''] (Ident ''T'')] [] (Some [])"

definition genericMethodDecl :: GenericDecl where
  "genericMethodDecl =
     \<lparr>decl_name = ''S.m'',
      decl_typ = SignatureT (Signature (Some (Var ''s'' (Basic ''S'')))
                   (Some [Var ''x'' (TypeParam ''T'')]) None False [''T''] [] None),
      decl_typeParams = [''T''],
      decl_usages = [(''int'', \<lparr>usg_typeMap = [(''T'', Basic ''int'')],
        usg_typ = SignatureT (Signature (Some (Var ''s'' (Basic ''S'')))
                   (Some [Var ''x'' (Basic ''int'')]) None False [] [] None)\<rparr>)]\<rparr>"

definition genericMethodTransformer :: Transformer where
  "genericMethodTransformer =
     \<lparr>Generics = [''S.m'' \<mapsto> genericMethodDecl], Selections = Map.empty, Uses = Map.empty\<rparr>"

text \<open>
  The generic method \<open>func (s S) put[K, V](key K, val V) {}\<close> on a type \<open>S\<close> that is
  not generic. The registry key of a generic method is the receiver's type name, a dot and
  the method's name, which is where \<open>generateFuncDecls\<close> looks it up; \<open>putObj\<close> is the
  object the method is registered and its usages are recorded under. Then the type
  arguments and the type of the application \<open>s.put[int, string]\<close>, the registry after
  \<open>addGenericDecl\<close>, the registry with the one usage record for \<open>int, string\<close>, and
  the file
  \<open>type S struct{}; var s S; func (s S) put[K, V](key K, val V) {};
  func main() { s.put[int, string](1, a); s.put[int, string](2, b) }\<close>.
\<close>

definition putObj :: Object where
  "putObj = Object ''main'' ''S.put''"

definition putType :: Type where
  "putType = SignatureT (Signature (Some (Var ''s'' (Basic ''S'')))
     (Some [Var ''key'' (TypeParam ''K''), Var ''val'' (TypeParam ''V'')]) None False
     [''K'', ''V''] [] (Some putObj))"

definition putArgs :: TypeMap where
  "putArgs = [(''K'', Basic ''int''), (''V'', Basic ''string'')]"

definition putOfIntString :: Type where
  "putOfIntString = ConcreteSignatureT (Signature (Some (Var ''s'' (Basic ''S'')))
     (Some [Var ''key'' (Basic ''int''), Var ''val'' (Basic ''string'')]) None False [] []
     (Some putObj)) [''K'', ''V''] putArgs"

definition putRegistered :: Packages where
  "putRegistered = addGenericDecl putObj putType [''K'', ''V''] noPackages"

definition putUsed :: Packages where
  "putUsed = noPackages (''main'' := [''S.put'' \<mapsto>
     \<lparr>decl_name = ''S.put'', decl_typ = putType, decl_typeParams = [''K'', ''V''],
      decl_usages = [(''int,string'', \<lparr>usg_typeMap = putArgs, usg_typ = putOfIntString\<rparr>)]\<rparr>])"

definition putTransformer :: Transformer where
  "putTransformer = \<lparr>Generics = putUsed ''main'', Selections = Map.empty, Uses = Map.empty\<rparr>"

definition putMethod :: FuncDecl where
  "putMethod = FuncDecl (Some [Field [''s''] (Ident ''S'')]) ''put''
     (Some (TypeParamDecl [''K'', ''V'']))
     [Field [''key''] (Ident ''K''), Field [''val''] (Ident ''V'')] [] (Some [])"

definition putCall :: "Expr \<Rightarrow> Expr \<Rightarrow> Stmt" where
  "putCall key val = ExprStmt (CallExpr
     (TypeArgExpr (SelectorExpr (Ident ''s'') ''put'') [Ident ''int'', Ident ''string''])
     [key, val])"

definition putFile :: File where
  "putFile = File ''main''
     [DeclGen (GenDecl ''type'' [TypeSpec ''S'' None (StructType [])]),
      DeclGen (GenDecl ''var'' [ValueSpec [''s''] (Some (Ident ''S'')) []]),
      DeclFunc putMethod,
      DeclFunc (FuncDecl None ''main'' None [] [] (Some
        [putCall (BasicLit ''1'') (Ident ''a''), putCall (BasicLit ''2'') (Ident ''b'')]))]"

text \<open>
  \<open>func main() { NewBox[int](1).Map[string](f) }\<close> in a package that declares the generic
  type \<open>Box[T]\<close>, the generic function \<open>NewBox[T]\<close> and the generic method
  \<open>Box[T].Map[U]\<close>; the selection \<open>NewBox[int](1).Map\<close> is a method value on the
  receiver type \<open>Box[int]\<close>.
\<close>

definition boxIntNamed :: Type where
  "boxIntNamed = ConcreteNamedT (ConcreteNamed (Object ''main'' ''Box'')
     (StructT (Struct [Var ''val'' (Basic ''int'')] [])) [] [] [''T''] [(''T'', Basic ''int'')])"

definition newBoxCall :: Expr where
  "newBoxCall = CallExpr (IndexExpr (Ident ''NewBox'') (Ident ''int'')) [BasicLit ''1'']"

definition chainCall :: Expr where
  "chainCall = CallExpr (IndexExpr (SelectorExpr newBoxCall ''Map'') (Ident ''string'')) [Ident ''f'']"

definition chainTransformer :: Transformer where
  "chainTransformer =
     \<lparr>Generics = [''Box'' \<mapsto> boxDecl, ''NewBox'' \<mapsto> boxDecl \<lparr>decl_name := ''NewBox''\<rparr>,
                   ''Box.Map'' \<mapsto> boxDecl \<lparr>decl_name := ''Box.Map''\<rparr>],
      Selections = [SelectorExpr newBoxCall ''Map'' \<mapsto>
                      \<lparr>sel_Kind = MethodVal, sel_Recv = boxIntNamed, sel_Obj = ''Map''\<rparr>],
      Uses = Map.empty\<rparr>"

definition chainFile :: File where
  "chainFile = File ''main'' [DeclFunc (FuncDecl None ''main'' None [] [] (Some [ExprStmt chainCall]))]"

text \<open>
  \<open>type A[T] T\<close>, \<open>func (a A[T]) f1() T { return T(a) }\<close> and
  \<open>func main() { var _ = A[bool](true) }\<close>, with the usage \<open>A[bool]\<close> recorded; the
  output expected for it; and that output without the method.
\<close>

definition wrapperDecl :: GenericDecl where
  "wrapperDecl =
     \<lparr>decl_name = ''A'',
      decl_typ = NamedT (Named (Object ''main'' ''A'') (TypeParam ''T'') [] [''T'']),
      decl_typeParams = [''T''],
      decl_usages = [(''bool'', \<lparr>usg_typeMap = [(''T'', Basic ''bool'')],
        usg_typ = ConcreteNamedT (ConcreteNamed (Object ''main'' ''A'') (Basic ''bool'') [] []
                    [''T''] [(''T'', Basic ''bool'')])\<rparr>)]\<rparr>"

definition wrapperTransformer :: Transformer where
  "wrapperTransformer =
     \<lparr>Generics = [''A'' \<mapsto> wrapperDecl], Selections = Map.empty, Uses = Map.empty\<rparr>"

definition wrapperFile :: File where
  "wrapperFile = File ''main''
     [DeclGen (GenDecl ''type'' [TypeSpec ''A'' (Some (TypeParamDecl [''T''])) (Ident ''T'')]),
      DeclFunc (FuncDecl (Some [Field [''a''] (TypeArgExpr (Ident ''A'') [Ident ''T''])]) ''f1'' None
        [] [Field [] (Ident ''T'')] (Some [ReturnStmt [CallExpr (Ident ''T'') [Ident ''a'']]])),
      DeclFunc (FuncDecl None ''main'' None [] [] (Some
        [DeclStmt (GenDecl ''var'' [ValueSpec [''_''] None
           [CallExpr (IndexExpr (Ident ''A'') (Ident ''bool'')) [Ident ''true'']]])]))]"

definition wrapperOutput :: File where
  "wrapperOutput = File ''main''
     [DeclGen (GenDecl ''type'' [TypeSpec ''A__bool'' None (Ident ''bool'')]),
      DeclFunc (FuncDecl (Some [Field [''a''] (Ident ''A__bool'')]) ''f1'' None
        [] [Field [] (Ident ''bool'')] (Some [ReturnStmt [CallExpr (Ident ''bool'') [Ident ''a'']]])),
      DeclFunc (FuncDecl None ''main'' None [] [] (Some
        [DeclStmt (GenDecl ''var'' [ValueSpec [''_''] None
           [CallExpr (Ident ''A__bool'') [Ident ''true'']]])]))]"

definition wrapperSecondOutput :: File where
  "wrapperSecondOutput = File ''main''
     [DeclGen (GenDecl ''type'' [TypeSpec ''A__bool'' None (Ident ''bool'')]),
      DeclFunc (FuncDecl None ''main'' None [] [] (Some
        [DeclStmt (GenDecl ''var'' [ValueSpec [''_''] None
           [CallExpr (Ident ''A__bool'') [Ident ''true'']]])]))]"

section \<open>Theorems: the registry\<close>

lemma set_update_subset:
  "(k', v') \<in> set (AList.update k v al) \<Longrightarrow> (k', v') = (k, v) \<or> (k', v') \<in> set al"
  by (induction al) (auto split: if_splits)

lemma noPartialUsage_addGenericDecl:
  "noPartialUsage pkgs \<Longrightarrow> noPartialUsage (addGenericDecl obj objType typeParams pkgs)"
  unfolding noPartialUsage_def addGenericDecl_def
  by (auto split: if_splits)

lemma noPartialUsage_addGenericUsage:
  assumes "noPartialUsage pkgs"
    and "addGenericUsage String genObj typ typeMap pkgs = Inr pkgs'"
  shows "noPartialUsage pkgs'"
proof (cases "list_ex (\<lambda>(k, t). isTypeParam t) typeMap")
  case True
  with assms show ?thesis by (simp add: addGenericUsage_def)
next
  case False
  from assms(2) False obtain genDecl key where
    found: "pkgs (opkg genObj) (oname genObj) = Some genDecl"
    and pkgs': "pkgs' = pkgs (opkg genObj := (pkgs (opkg genObj)) (oname genObj \<mapsto>
                  genDecl \<lparr>decl_usages :=
                    AList.update key \<lparr>usg_typeMap = typeMap, usg_typ = typ\<rparr>
                      (decl_usages genDecl)\<rparr>))"
    by (auto simp: addGenericUsage_def split: option.splits sum.splits)
  show ?thesis
    unfolding noPartialUsage_def
  proof (intro allI impI)
    fix path name decl k usg
    assume d: "pkgs' path name = Some decl" and u: "(k, usg) \<in> set (decl_usages decl)"
    show "\<not> list_ex (\<lambda>(k, t). isTypeParam t) (usg_typeMap usg)"
    proof (cases "path = opkg genObj \<and> name = oname genObj")
      case True
      with d pkgs' have "decl_usages decl =
          AList.update key \<lparr>usg_typeMap = typeMap, usg_typ = typ\<rparr> (decl_usages genDecl)"
        by auto
      with u have "usg = \<lparr>usg_typeMap = typeMap, usg_typ = typ\<rparr> \<or>
                   (k, usg) \<in> set (decl_usages genDecl)"
        using set_update_subset by fastforce
      then show ?thesis
      proof
        assume "usg = \<lparr>usg_typeMap = typeMap, usg_typ = typ\<rparr>"
        with False show ?thesis by simp
      next
        assume "(k, usg) \<in> set (decl_usages genDecl)"
        with assms(1) found show ?thesis unfolding noPartialUsage_def by blast
      qed
    next
      case False
      with d pkgs' have "pkgs path name = Some decl" by (auto split: if_splits)
      with assms(1) u show ?thesis unfolding noPartialUsage_def by blast
    qed
  qed
qed

lemma registrySteps_noPartialUsage:
  "registrySteps String pkgs0 pkgs \<Longrightarrow> noPartialUsage pkgs0 \<Longrightarrow> noPartialUsage pkgs"
  by (induction rule: registrySteps.induct)
     (auto intro: noPartialUsage_addGenericDecl noPartialUsage_addGenericUsage)

lemma noPartialUsage_noPackages: "noPartialUsage noPackages"
  by (simp add: noPartialUsage_def noPackages_def)

lemma registered_addGenericDecl:
  "pkgs path name \<noteq> None \<Longrightarrow> addGenericDecl obj objType typeParams pkgs path name \<noteq> None"
  by (auto simp: addGenericDecl_def)

lemma registered_addGenericUsage:
  "pkgs path name \<noteq> None \<Longrightarrow> addGenericUsage String genObj typ typeMap pkgs = Inr pkgs' \<Longrightarrow>
   pkgs' path name \<noteq> None"
  by (auto simp: addGenericUsage_def split: if_splits option.splits sum.splits)

lemma registrySteps_registered:
  "registrySteps String pkgs0 pkgs \<Longrightarrow> pkgs0 path name \<noteq> None \<Longrightarrow> pkgs path name \<noteq> None"
proof (induction rule: registrySteps.induct)
  case start
  then show ?case by simp
next
  case (decl pkgs obj objType typeParams)
  then show ?case using registered_addGenericDecl by blast
next
  case (usage pkgs genObj t typeMap pkgs')
  then show ?case using registered_addGenericUsage by blast
qed

lemma stringParams_error:
  "stringParams String typeMap typeParams = Inl e \<Longrightarrow> e = NilDereference"
  by (induction typeParams) (auto split: if_splits sum.splits)

lemma addGenericUsage_registered:
  "pkgs (opkg genObj) (oname genObj) \<noteq> None \<Longrightarrow>
   addGenericUsage String genObj typ typeMap pkgs \<noteq> Inl (DeclarationNotFound obj')"
  by (auto simp: addGenericUsage_def usageKey_def split: option.splits sum.splits
        dest: stringParams_error)

lemma boxRegistered_eq: "boxRegistered = noPackages (''main'' := [''Box'' \<mapsto> boxDecl])"
  by (simp add: boxRegistered_def addGenericDecl_def boxObj_def boxDecl_def noPackages_def)

lemma boxUsed_eq:
  "addGenericUsage exString boxObj boxInt [(''T'', Basic ''int'')] boxRegistered = Inr boxUsed"
  by (simp add: boxRegistered_eq addGenericUsage_def usageKey_def index_def exString_def
      boxObj_def boxDecl_def boxUsed_def noPackages_def)

lemma boxUsed_steps: "registrySteps exString noPackages boxUsed"
  using registrySteps.usage [OF registrySteps.decl [OF registrySteps.start] boxUsed_eq [unfolded boxRegistered_def]]
  by simp

text \<open>
  C5: a call to \<open>addGenericUsage\<close> whose map has a value that is itself a type parameter
  returns with the registry unchanged; and every registry reached from the empty one by
  \<open>addGenericDecl\<close> and \<open>addGenericUsage\<close> calls holds no partial usage: the map of every
  recorded usage contains only non-parameter types.
\<close>

theorem C5_registry_has_no_partial_usage:
  "(list_ex (\<lambda>(k, t). isTypeParam t) typeMap \<longrightarrow>
      addGenericUsage String genObj typ typeMap pkgs = Inr pkgs) \<and>
   (registrySteps String noPackages pkgs' \<longrightarrow> noPartialUsage pkgs')"
  using registrySteps_noPartialUsage noPartialUsage_noPackages
  by (auto simp: addGenericUsage_def)

theorem C5_registry_has_no_partial_usage_witness:
  "list_ex (\<lambda>(k, t). isTypeParam t) [(''T'', TypeParam ''U'')] \<and>
   addGenericUsage exString boxObj boxType [(''T'', TypeParam ''U'')] boxRegistered = Inr boxRegistered \<and>
   registrySteps exString noPackages boxUsed \<and> noPartialUsage boxUsed"
  using C5_registry_has_no_partial_usage [of "[(''T'', TypeParam ''U'')]" exString boxObj boxType
      boxRegistered boxUsed] boxUsed_steps
  by simp

text \<open>
  C10: when the map has no type-parameter value and the registry of the object's package
  has no entry under the object's name, \<open>addGenericUsage\<close> panics with "declaration not
  found for generic object" and nothing is inserted; in every registry reached after
  \<open>addGenericDecl\<close> was called for the object, \<open>addGenericUsage\<close> for that object never
  takes this panic branch.
\<close>

theorem C10_usage_requires_declaration:
  "(\<not> list_ex (\<lambda>(k, t). isTypeParam t) typeMap \<longrightarrow>
    pkgs (opkg genObj) (oname genObj) = None \<longrightarrow>
      addGenericUsage String genObj typ typeMap pkgs = Inl (DeclarationNotFound genObj)) \<and>
   (registrySteps String (addGenericDecl genObj objType typeParams pkgs0) pkgs1 \<longrightarrow>
      addGenericUsage String genObj typ' typeMap' pkgs1 \<noteq> Inl (DeclarationNotFound obj'))"
proof (intro conjI impI)
  assume "\<not> list_ex (\<lambda>(k, t). isTypeParam t) typeMap"
    and "pkgs (opkg genObj) (oname genObj) = None"
  then show "addGenericUsage String genObj typ typeMap pkgs = Inl (DeclarationNotFound genObj)"
    by (simp add: addGenericUsage_def)
next
  assume steps: "registrySteps String (addGenericDecl genObj objType typeParams pkgs0) pkgs1"
  have "addGenericDecl genObj objType typeParams pkgs0 (opkg genObj) (oname genObj) \<noteq> None"
    by (simp add: addGenericDecl_def)
  with steps have "pkgs1 (opkg genObj) (oname genObj) \<noteq> None"
    by (rule registrySteps_registered)
  then show "addGenericUsage String genObj typ' typeMap' pkgs1 \<noteq> Inl (DeclarationNotFound obj')"
    by (rule addGenericUsage_registered)
qed

theorem C10_usage_requires_declaration_witness:
  "\<not> list_ex (\<lambda>(k, t). isTypeParam t) [(''T'', Basic ''int'')] \<and>
   noPackages (opkg boxObj) (oname boxObj) = None \<and>
   addGenericUsage exString boxObj boxInt [(''T'', Basic ''int'')] noPackages =
     Inl (DeclarationNotFound boxObj) \<and>
   registrySteps exString (addGenericDecl boxObj boxType [''T''] noPackages) boxRegistered \<and>
   addGenericUsage exString boxObj boxInt [(''T'', Basic ''int'')] boxRegistered \<noteq>
     Inl (DeclarationNotFound boxObj)"
  using C10_usage_requires_declaration [of "[(''T'', Basic ''int'')]" noPackages boxObj exString
      boxInt boxType "[''T'']" noPackages boxRegistered boxInt "[(''T'', Basic ''int'')]" boxObj]
    registrySteps.start [of exString boxRegistered]
  by (simp add: noPackages_def boxRegistered_def)

text \<open>Usage keys, and two usages with the same argument strings.\<close>

lemma stringParams_bound:
  "list_all (\<lambda>p. index typeMap p \<noteq> NilType) typeParams \<Longrightarrow>
   stringParams String typeMap typeParams = Inr (map (\<lambda>p. String (index typeMap p)) typeParams)"
  by (induction typeParams) auto

lemma usageKey_bound:
  "list_all (\<lambda>p. index typeMap p \<noteq> NilType) typeParams \<Longrightarrow>
   usageKey String typeMap typeParams = Inr (argsKey String typeMap typeParams)"
  by (simp add: usageKey_def argsKey_def stringParams_bound)

lemma addGenericUsage_recorded:
  assumes "pkgs (opkg genObj) (oname genObj) = Some decl"
    and "\<not> list_ex (\<lambda>(k, t). isTypeParam t) typeMap"
    and "list_all (\<lambda>p. index typeMap p \<noteq> NilType) (decl_typeParams decl)"
  shows "addGenericUsage String genObj typ typeMap pkgs =
     Inr (pkgs (opkg genObj := (pkgs (opkg genObj)) (oname genObj \<mapsto>
       decl \<lparr>decl_usages := AList.update (argsKey String typeMap (decl_typeParams decl))
                \<lparr>usg_typeMap = typeMap, usg_typ = typ\<rparr> (decl_usages decl)\<rparr>)))"
  using assms by (simp add: addGenericUsage_def usageKey_bound)

lemma recordTwice_merged:
  assumes reg: "pkgs (opkg genObj) (oname genObj) = Some decl"
    and c1: "\<not> list_ex (\<lambda>(k, t). isTypeParam t) typeMap1"
    and c2: "\<not> list_ex (\<lambda>(k, t). isTypeParam t) typeMap2"
    and b1: "list_all (\<lambda>p. index typeMap1 p \<noteq> NilType) (decl_typeParams decl)"
    and b2: "list_all (\<lambda>p. index typeMap2 p \<noteq> NilType) (decl_typeParams decl)"
    and same: "map (\<lambda>p. String (index typeMap1 p)) (decl_typeParams decl) =
               map (\<lambda>p. String (index typeMap2 p)) (decl_typeParams decl)"
  shows "recordTwice String genObj typ1 typeMap1 typ2 typeMap2 pkgs =
     Inr (pkgs (opkg genObj := (pkgs (opkg genObj)) (oname genObj \<mapsto>
       decl \<lparr>decl_usages := AList.update (argsKey String typeMap1 (decl_typeParams decl))
                \<lparr>usg_typeMap = typeMap2, usg_typ = typ2\<rparr> (decl_usages decl)\<rparr>)))"
proof -
  let ?key = "argsKey String typeMap1 (decl_typeParams decl)"
  let ?decl1 = "decl \<lparr>decl_usages := AList.update ?key
                  \<lparr>usg_typeMap = typeMap1, usg_typ = typ1\<rparr> (decl_usages decl)\<rparr>"
  let ?pkgs1 = "pkgs (opkg genObj := (pkgs (opkg genObj)) (oname genObj \<mapsto> ?decl1))"
  have k: "argsKey String typeMap2 (decl_typeParams decl) = ?key"
    unfolding argsKey_def by (rule arg_cong [OF same [symmetric]])
  have first: "addGenericUsage String genObj typ1 typeMap1 pkgs = Inr ?pkgs1"
    using reg c1 b1 by (rule addGenericUsage_recorded)
  have reg1: "?pkgs1 (opkg genObj) (oname genObj) = Some ?decl1" by simp
  have b2': "list_all (\<lambda>p. index typeMap2 p \<noteq> NilType) (decl_typeParams ?decl1)"
    using b2 by simp
  have second: "addGenericUsage String genObj typ2 typeMap2 ?pkgs1 =
      Inr (?pkgs1 (opkg genObj := (?pkgs1 (opkg genObj)) (oname genObj \<mapsto>
        ?decl1 \<lparr>decl_usages := AList.update (argsKey String typeMap2 (decl_typeParams ?decl1))
                  \<lparr>usg_typeMap = typeMap2, usg_typ = typ2\<rparr> (decl_usages ?decl1)\<rparr>)))"
    using reg1 c2 b2' by (rule addGenericUsage_recorded)
  show ?thesis
    unfolding recordTwice_def first using second k by simp
qed

section \<open>Theorems: the substitution engine\<close>

text \<open>
  C3: \<open>struct { next interface { Get() T }; last T }\<close> and the map \<open>T \<mapsto> int\<close>.
  \<open>replaceTypes\<close> copies the struct and replaces the type-parameter leaf of \<open>last\<close> by
  \<open>int\<close>, but returns the field type of \<open>next\<close> as it is: the leaf \<open>T\<close> below the
  interface is still there although \<open>M[T]\<close> exists and is not a type parameter, and the
  result is not the struct with \<open>int\<close> for every \<open>T\<close>. The registry is not touched.
\<close>

theorem C3_parameter_below_interface_kept:
  "replaceTypes sourceOfT exString [(''T'', Basic ''int'')] noPackages =
     Inr (sourceHalfReplaced, noPackages) \<and>
   sourceHalfReplaced \<noteq> sourceOfInt"
  by (simp add: sourceOfT_def sourceOfInt_def sourceHalfReplaced_def getterOfT_def getterOfInt_def
      NewStruct_def)

text \<open>
  C8: \<open>replaceTypes\<close> on the interface \<open>interface { Get() T }\<close> with the map
  \<open>T \<mapsto> int\<close>. The \<open>switch\<close> of \<open>replaceTypes\<close> has no case for an interface and
  falls through to \<open>return root\<close>: the result is the interface itself, with the signature
  of \<open>Get\<close> not substituted, and not \<open>interface { Get() int }\<close>.
\<close>

theorem C8_interface_not_substituted:
  "replaceTypes getterOfT exString [(''T'', Basic ''int'')] noPackages = Inr (getterOfT, noPackages) \<and>
   replaceTypes getterOfT exString [(''T'', Basic ''int'')] noPackages \<noteq> Inr (getterOfInt, noPackages)"
  by (simp add: getterOfT_def getterOfInt_def)

section \<open>Theorems: type-argument applications\<close>

text \<open>
  C7: \<open>Box[int, string]\<close> for \<open>type Box[T] struct { val T }\<close>, registered. \<open>createTypeMap\<close>
  reports the error with the expected count 1 and the actual count 2 and returns the nil
  map; \<open>concreteType\<close> goes on with that map and panics in \<open>usageKey\<close> on the nil value
  read for \<open>T\<close>, instead of giving the expression the Invalid type.
\<close>

theorem C7_arity_mismatch_panics:
  "createTypeMap basicExpr [Ident ''int'', Ident ''string''] [''T''] checker0 =
     ([], \<lparr>check_pos = 0, check_errors = [WrongNumberOfTypeParameters 0 1 2]\<rparr>) \<and>
   concreteType basicExpr exString [Ident ''int'', Ident ''string''] boxType checker0 boxRegistered =
     Inl NilDereference"
  by (simp add: createTypeMap_def concreteType_def boxType_def checker0_def errorf_def
      replaceTypesInMethods_def NewStruct_def boxRegistered_eq addGenericUsage_def usageKey_def
      index_def boxObj_def boxDecl_def noPackages_def)

section \<open>Theorems: the transformer\<close>

lemmas transformer_defs =
  generateFuncDecls_def generateFuncDeclsFor_def generateConcreteTypes_def
  generateTypeSpecs_def generateTypeSpec_def generateFuncDecl_def
  Transformer_File_def applyDecl_def
  receiverType_def unstar_def untypeArg_def lift_def optional_def both_def
  preWalker_def postWalker_def visitName_def visit_def visitPost_def visitNamePost_def
  replaceGenericIdents_def selectionKey_def replaceIdentsInScope_def replaceIdentsPost_def
  concreteTypeExpr_def concreteTypeName_def formatTypeArgs_def formatTypeArg_def
  expandReceiverPre_def recvTypeParams_def sortFuncs_def index_def
  exLib_def exExprString_def exTypeToExpr_def exString_def insertionSort_def

text \<open>The registry of the example for C4.\<close>

lemma putRegistered_eq:
  "putRegistered = noPackages (''main'' := [''S.put'' \<mapsto>
     \<lparr>decl_name = ''S.put'', decl_typ = putType, decl_typeParams = [''K'', ''V''],
      decl_usages = []\<rparr>])"
  by (simp add: putRegistered_def addGenericDecl_def putObj_def noPackages_def)

lemma putUsed_first:
  "addGenericUsage exString putObj putOfIntString putArgs putRegistered = Inr putUsed"
  by (simp add: putRegistered_eq addGenericUsage_def usageKey_def index_def exString_def
      putObj_def putArgs_def putUsed_def noPackages_def)

lemma putUsed_second:
  "addGenericUsage exString putObj putOfIntString putArgs putUsed = Inr putUsed"
  by (simp add: addGenericUsage_def usageKey_def index_def exString_def
      putObj_def putArgs_def putUsed_def noPackages_def)

lemma putArgs_created:
  "createTypeMap basicExpr [Ident ''int'', Ident ''string''] [''K'', ''V''] checker0 =
     (putArgs, checker0)"
  by (simp add: createTypeMap_def basicExpr_def putArgs_def)

lemma putOfIntString_substituted:
  "replaceTypesInSignature (Signature (Some (Var ''s'' (Basic ''S'')))
       (Some [Var ''key'' (TypeParam ''K''), Var ''val'' (TypeParam ''V'')]) None False
       [''K'', ''V''] [] (Some putObj)) exString putArgs pkgs =
     Inr (Signature (Some (Var ''s'' (Basic ''S'')))
       (Some [Var ''key'' (Basic ''int''), Var ''val'' (Basic ''string'')]) None False
       [''K'', ''V''] [] (Some putObj), pkgs)"
  by (simp add: putArgs_def copyRecv_def copyTuple_def NewSignature_def)

lemma put_applied:
  assumes "addGenericUsage exString putObj putOfIntString putArgs pkgs = Inr pkgs'"
  shows "concreteType basicExpr exString [Ident ''int'', Ident ''string''] putType checker0 pkgs =
           Inr (putOfIntString, checker0, pkgs')"
  using assms
  by (simp add: concreteType_def putType_def putArgs_created putOfIntString_substituted
      putOfIntString_def del: replaceTypesInSignature.simps)

text \<open>
  C4: the generic method \<open>put[K, V]\<close> on a type that is not generic, applied twice as
  \<open>s.put[int, string]\<close>. The usage key is the string forms of the two arguments in the
  order of the type parameters, joined by \<open>","\<close>; the two applications, and the two
  \<open>addGenericUsage\<close> calls they make, write the same key, so the registry holds a single
  usage record for the method. For that one record \<open>generateFuncDecls\<close> passes the nil
  \<open>genRecvDecl\<close> to \<open>expandReceiverType\<close> and panics: the transformer emits no
  concrete declaration for the two usage sites, whatever the functions of \<open>Lib\<close> are.
\<close>

theorem C4_merged_usage_yields_no_declaration:
  "usageKey exString putArgs [''K'', ''V''] = Inr ''int,string'' \<and>
   concreteType basicExpr exString [Ident ''int'', Ident ''string''] putType checker0 putRegistered =
     Inr (putOfIntString, checker0, putUsed) \<and>
   concreteType basicExpr exString [Ident ''int'', Ident ''string''] putType checker0 putUsed =
     Inr (putOfIntString, checker0, putUsed) \<and>
   recordTwice exString putObj putOfIntString putArgs putOfIntString putArgs putRegistered =
     Inr putUsed \<and>
   map_option (\<lambda>decl. map fst (decl_usages decl)) (putUsed ''main'' ''S.put'') =
     Some [''int,string''] \<and>
   generateFuncDecls lib putTransformer putMethod = Inl NilDereference \<and>
   Transformer_File lib putTransformer putFile = Inl NilDereference"
proof (intro conjI)
  show "usageKey exString putArgs [''K'', ''V''] = Inr ''int,string''"
    by (simp add: usageKey_def putArgs_def index_def exString_def)
  show "concreteType basicExpr exString [Ident ''int'', Ident ''string''] putType checker0
          putRegistered = Inr (putOfIntString, checker0, putUsed)"
    using putUsed_first by (rule put_applied)
  show "concreteType basicExpr exString [Ident ''int'', Ident ''string''] putType checker0
          putUsed = Inr (putOfIntString, checker0, putUsed)"
    using putUsed_second by (rule put_applied)
  show "recordTwice exString putObj putOfIntString putArgs putOfIntString putArgs putRegistered =
          Inr putUsed"
    by (simp add: recordTwice_def putUsed_first putUsed_second)
  show "map_option (\<lambda>decl. map fst (decl_usages decl)) (putUsed ''main'' ''S.put'') =
          Some [''int,string'']"
    by (simp add: putUsed_def)
  show panics: "generateFuncDecls lib putTransformer putMethod = Inl NilDereference"
    by (simp add: generateFuncDecls_def generateFuncDeclsFor_def putTransformer_def putUsed_def
        putMethod_def generateFuncDecl_def expandReceiverPre_def noPackages_def
        receiverType_def unstar_def untypeArg_def lift_def optional_def both_def visitName_def)
  show "Transformer_File lib putTransformer putFile = Inl NilDereference"
    using panics
    by (simp add: Transformer_File_def applyDecl_def generateConcreteTypes_def putFile_def
        putTransformer_def putUsed_def noPackages_def lift_def)
qed

text \<open>
  C6: the method \<open>func (s S) m() {}\<close> on a type that is not generic, in a package without
  generic declarations. \<open>generateFuncDecls\<close> returns no function and
  \<open>recvIsGeneric = true\<close>, so \<open>generateConcreteTypes\<close> deletes the declaration, and the
  file that \<open>Transformer.File\<close> returns has lost the method, whatever the functions of
  \<open>Lib\<close> are.
\<close>

theorem C6_plain_method_deleted:
  "generateFuncDecls lib noGenerics plainMethod = Inr ([], True) \<and>
   generateConcreteTypes lib noGenerics (DeclFunc plainMethod) = Inr [Delete] \<and>
   Transformer_File lib noGenerics (File ''main'' [DeclFunc plainMethod, DeclFunc mainFunc]) =
     Inr (File ''main'' [DeclFunc mainFunc])"
  by (simp add: generateFuncDecls_def generateFuncDeclsFor_def generateConcreteTypes_def
      Transformer_File_def applyDecl_def noGenerics_def plainMethod_def mainFunc_def
      receiverType_def unstar_def untypeArg_def lift_def optional_def both_def
      preWalker_def visitName_def replaceGenericIdents_def)

text \<open>
  C2: the generic method \<open>func (s S) m[T](x T) {}\<close> on a type that is not generic, with
  one recorded usage. \<open>generateFuncDecls\<close> passes the nil \<open>genRecvDecl\<close> to
  \<open>expandReceiverType\<close>, whose callback reads \<open>genDecl.Name\<close> at the first identifier
  of the receiver: instead of one concrete declaration, pass 1 ends in a panic, whatever
  the functions of \<open>Lib\<close> are.
\<close>

theorem C2_generic_method_on_plain_receiver_panics:
  "generateFuncDecls lib genericMethodTransformer genericMethod = Inl NilDereference \<and>
   Transformer_File lib genericMethodTransformer (File ''main'' [DeclFunc genericMethod]) =
     Inl NilDereference"
  by (simp add: generateFuncDecls_def generateFuncDeclsFor_def generateConcreteTypes_def
      Transformer_File_def applyDecl_def genericMethodTransformer_def genericMethod_def
      genericMethodDecl_def generateFuncDecl_def expandReceiverPre_def
      receiverType_def unstar_def untypeArg_def lift_def optional_def both_def
      visitName_def)

text \<open>
  C1: \<open>func main() { NewBox[int](1).Map[string](f) }\<close>. Pass 2 replaces the application
  \<open>NewBox[int](1).Map[string]\<close> by a copy of its selector with the selected name
  rewritten and returns false, so nothing below it is visited: the file that
  \<open>Transformer.File\<close> returns still contains the index expression \<open>NewBox[int]\<close>, whose
  indexed operand names a registered generic declaration.
\<close>

theorem C1_nested_application_survives:
  "Transformer_File exLib chainTransformer chainFile =
     Inr (File ''main'' [DeclFunc (FuncDecl None ''main'' None [] [] (Some [ExprStmt
       (CallExpr (SelectorExpr (CallExpr (IndexExpr (Ident ''NewBox'') (Ident ''int''))
                                  [BasicLit ''1''])
                    ''Map__string'')
          [Ident ''f''])]))]) \<and>
   Generics chainTransformer ''NewBox'' \<noteq> None"
  by (simp add: generateFuncDecls_def generateFuncDeclsFor_def generateConcreteTypes_def
      Transformer_File_def applyDecl_def chainTransformer_def chainFile_def chainCall_def
      newBoxCall_def boxIntNamed_def
      receiverType_def unstar_def untypeArg_def lift_def optional_def both_def
      preWalker_def visitName_def visit_def replaceGenericIdents_def selectionKey_def
      concreteTypeExpr_def formatTypeArgs_def formatTypeArg_def exLib_def exExprString_def)

text \<open>The two runs of the example for C9.\<close>

lemma wrapper_first_run:
  "Transformer_File exLib wrapperTransformer wrapperFile = Inr wrapperOutput"
  by (simp add: transformer_defs wrapperTransformer_def wrapperFile_def wrapperOutput_def
      wrapperDecl_def)

lemma wrapper_second_run:
  "Transformer_File exLib noGenerics wrapperOutput = Inr wrapperSecondOutput"
  by (simp add: transformer_defs noGenerics_def wrapperOutput_def wrapperSecondOutput_def)

text \<open>
  C9: the file with \<open>type A[T] T\<close>, the method \<open>f1\<close> on \<open>A[T]\<close> and a \<open>main\<close> that uses
  \<open>A[bool]\<close> is transformed into \<open>type A__bool bool\<close>, the method \<open>f1\<close> on
  \<open>A__bool\<close> and the rewritten \<open>main\<close>. That output declares nothing generic, so its
  registry is empty; transforming it again deletes the method \<open>f1\<close>: the second output
  differs from the first.
\<close>

theorem C9_second_run_deletes_methods:
  "Transformer_File exLib wrapperTransformer wrapperFile = Inr wrapperOutput \<and>
   Transformer_File exLib noGenerics wrapperOutput = Inr wrapperSecondOutput \<and>
   wrapperSecondOutput \<noteq> wrapperOutput"
  using wrapper_first_run wrapper_second_run
  by (simp add: wrapperOutput_def wrapperSecondOutput_def)

end
